theory Spec2Isabelle
  imports Complex_Main
begin

section \<open>Conventions\<close>

text \<open>
  The simulator is TypeScript driving GLSL shaders. A JavaScript \<open>number\<close> that carries a
  coordinate, a time or a colour, and every GLSL \<open>float\<close>, is modelled as a \<^typ>\<open>real\<close>:
  arithmetic is exact, so rounding of doubles and of half-float textures is outside the
  model. Pixel sizes of the canvas are \<^typ>\<open>nat\<close> (the DOM attribute is an unsigned long),
  clock readings of \<open>Date.now()\<close> are \<^typ>\<open>int\<close> milliseconds, configured resolutions
  and iteration counts are \<^typ>\<open>int\<close>.
\<close>

section \<open>Configuration (fluidSimulation.ts, \<open>config\<close>)\<close>

record IConfig =
  SIM_RESOLUTION :: int
  DYE_RESOLUTION :: int
  DENSITY_DISSIPATION :: real
  VELOCITY_DISSIPATION :: real
  PRESSURE :: real
  PRESSURE_ITERATIONS :: int
  CURL :: real
  SPLAT_RADIUS :: real
  SPLAT_FORCE :: real
  BLOOM_ITERATIONS :: int
  BLOOM_RESOLUTION :: int
  BLOOM_THRESHOLD :: real
  BLOOM_SOFT_KNEE :: real
  SUNRAYS_RESOLUTION :: int
  SHADING :: bool
  BLOOM :: bool
  SUNRAYS :: bool
  TRANSPARENT :: bool

definition config :: IConfig where
  "config = \<lparr> SIM_RESOLUTION = 128, DYE_RESOLUTION = 1024,
     DENSITY_DISSIPATION = 1, VELOCITY_DISSIPATION = 2 / 10,
     PRESSURE = 8 / 10, PRESSURE_ITERATIONS = 20, CURL = 30,
     SPLAT_RADIUS = 25 / 100, SPLAT_FORCE = 6000,
     BLOOM_ITERATIONS = 8, BLOOM_RESOLUTION = 256, BLOOM_THRESHOLD = 6 / 10, BLOOM_SOFT_KNEE = 7 / 10,
     SUNRAYS_RESOLUTION = 196, SHADING = True, BLOOM = True, SUNRAYS = True,
     TRANSPARENT = False \<rparr>"

section \<open>The canvas\<close>

record canvas =
  canvas_width :: nat
  canvas_height :: nat

text \<open>\<open>canvas.width / canvas.height\<close>, as every caller computes it.\<close>

definition aspectRatio :: "canvas \<Rightarrow> real" where
  "aspectRatio cv = real (canvas_width cv) / real (canvas_height cv)"

section \<open>Frame time (main.ts, \<open>calcDeltaTime\<close>)\<close>

text \<open>
  \<open>calcDeltaTime\<close> reads the clock, divides the elapsed milliseconds by 1000, takes the
  minimum with 0.05 and stores the reading in \<open>lastUpdateTime\<close>. The model takes the
  reading \<open>now\<close> and the stored \<open>lastUpdateTime\<close> and returns the time step together with
  the new stored value.
\<close>

definition calcDeltaTime :: "int \<Rightarrow> int \<Rightarrow> real \<times> int" where
  "calcDeltaTime now lastUpdateTime =
     (let dt = real_of_int (now - lastUpdateTime) / 1000;
          dt = min dt (5 / 100)
      in (dt, now))"

section \<open>Grid sizes (fluidSimulation.ts, \<open>getResolution\<close>)\<close>

text \<open>\<open>Math.round\<close> rounds to the nearest integer, halves upwards.\<close>

definition Math_round :: "real \<Rightarrow> int" where
  "Math_round x = \<lfloor>x + 1 / 2\<rfloor>"

record IResolution =
  res_width :: int
  res_height :: int

text \<open>
  The module variable \<open>canvas\<close> of fluidSimulation.ts is unset until
  \<open>setSimulationCanvas\<close> runs, hence the option.
\<close>

definition getResolution :: "canvas option \<Rightarrow> int \<Rightarrow> IResolution" where
  "getResolution canvas resolution =
     (case canvas of
        None \<Rightarrow> \<lparr> res_width = resolution, res_height = resolution \<rparr>
      | Some cv \<Rightarrow>
          (let aspect = aspectRatio cv;
               (w, h) = (if aspect > 1
                  then (Math_round (real_of_int resolution * aspect),
                        Math_round (real_of_int resolution))
                  else (Math_round (real_of_int resolution),
                        Math_round (real_of_int resolution / aspect)))
           in \<lparr> res_width = max w 1, res_height = max h 1 \<rparr>))"

section \<open>Framebuffer allocation (webglUtils.ts, \<open>createFBO\<close>)\<close>

text \<open>
  What the WebGL context answers to \<open>createFBO\<close>: whether the context exists, whether
  \<open>createTexture\<close> and \<open>createFramebuffer\<close> return an object, and whether the framebuffer
  is complete.
\<close>

record gl_context =
  gl_present :: bool
  createTexture_ok :: bool
  createFramebuffer_ok :: bool
  framebuffer_complete :: bool

datatype fbo_error =
    ContextLost
  | TextureCreationFailed
  | InvalidDimensions int int
  | FramebufferCreationFailed
  | FramebufferIncomplete

text \<open>
  \<open>IFBO\<close> of types.ts, together with what the texture holds: the sampling filter it was
  created with (\<open>param\<close>: \<open>gl.LINEAR\<close> or \<open>gl.NEAREST\<close>) and its texels. The texel type is
  the vector of the channels the texture format stores.
\<close>

record 'a IFBO =
  fbo_width :: int
  fbo_height :: int
  texelSizeX :: real
  texelSizeY :: real
  linear_filter :: bool
  texels :: "int \<Rightarrow> int \<Rightarrow> 'a"

text \<open>\<open>blank\<close> is the texel of freshly allocated storage (\<open>texImage2D\<close> with null data).\<close>

definition createFBO :: "gl_context \<Rightarrow> int \<Rightarrow> int \<Rightarrow> bool \<Rightarrow> 'a \<Rightarrow> fbo_error + 'a IFBO" where
  "createFBO gl w h param blank =
     (if \<not> gl_present gl then Inl ContextLost
      else if \<not> createTexture_ok gl then Inl TextureCreationFailed
      else if w \<le> 0 \<or> h \<le> 0 then Inl (InvalidDimensions w h)
      else if \<not> createFramebuffer_ok gl then Inl FramebufferCreationFailed
      else if \<not> framebuffer_complete gl then Inl FramebufferIncomplete
      else Inr \<lparr> fbo_width = w, fbo_height = h,
                 texelSizeX = 1 / real_of_int w, texelSizeY = 1 / real_of_int h,
                 linear_filter = param, texels = (\<lambda>i j. blank) \<rparr>)"

text \<open>\<open>IDoubleFBO\<close>: \<open>read\<close> is \<open>_fbo1\<close>, \<open>write\<close> is \<open>_fbo2\<close>, \<open>swap\<close> exchanges them.\<close>

record 'a IDoubleFBO =
  d_width :: int
  d_height :: int
  d_texelSizeX :: real
  d_texelSizeY :: real
  fbo1 :: "'a IFBO"
  fbo2 :: "'a IFBO"

definition read_fbo :: "'a IDoubleFBO \<Rightarrow> 'a IFBO" where
  "read_fbo d = fbo1 d"

definition write_fbo :: "'a IDoubleFBO \<Rightarrow> 'a IFBO" where
  "write_fbo d = fbo2 d"

definition swap_fbo :: "'a IDoubleFBO \<Rightarrow> 'a IDoubleFBO" where
  "swap_fbo d = d \<lparr> fbo1 := fbo2 d, fbo2 := fbo1 d \<rparr>"

definition createDoubleFBO ::
    "gl_context \<Rightarrow> int \<Rightarrow> int \<Rightarrow> bool \<Rightarrow> 'a \<Rightarrow> fbo_error + 'a IDoubleFBO" where
  "createDoubleFBO gl w h param blank =
     (case createFBO gl w h param blank of
        Inl e \<Rightarrow> Inl e
      | Inr f1 \<Rightarrow>
          (case createFBO gl w h param blank of
             Inl e \<Rightarrow> Inl e
           | Inr f2 \<Rightarrow>
               Inr \<lparr> d_width = w, d_height = h,
                     d_texelSizeX = texelSizeX f1, d_texelSizeY = texelSizeY f1,
                     fbo1 = f1, fbo2 = f2 \<rparr>))"

section \<open>Bloom chain sizes (fluidSimulation.ts, \<open>initBloomFramebuffers\<close>)\<close>

text \<open>
  \<open>x >> 1\<close> on a JavaScript number: the operand is first reduced to a signed 32-bit
  integer, then shifted arithmetically.
\<close>

definition ToInt32 :: "int \<Rightarrow> int" where
  "ToInt32 x = (x + 2 ^ 31) mod 2 ^ 32 - 2 ^ 31"

definition shift_right_1 :: "int \<Rightarrow> int" where
  "shift_right_1 x = ToInt32 x div 2"

text \<open>
  The sizes that the loop of \<open>initBloomFramebuffers\<close> hands to \<open>createFBO\<close>, in order,
  starting from the size of the main bloom buffer; the loop stops at the first size with
  a side below 2.
\<close>

function bloom_sizes :: "int \<Rightarrow> int \<Rightarrow> int \<Rightarrow> int \<Rightarrow> (int \<times> int) list" where
  "bloom_sizes i n lastWidth lastHeight =
     (if i < n
      then (let width = shift_right_1 lastWidth; height = shift_right_1 lastHeight
            in if width < 2 \<or> height < 2 then []
               else (width, height) # bloom_sizes (i + 1) n width height)
      else [])"
  by pat_completeness auto
termination
  by (relation "measure (\<lambda>(i, n, w, h). nat (n - i))") auto

declare bloom_sizes.simps [simp del]

section \<open>Pointer state (main.ts)\<close>

type_synonym vec2 = "real \<times> real"
type_synonym vec3 = "real \<times> real \<times> real"
type_synonym vec4 = "real \<times> real \<times> real \<times> real"

text \<open>
  \<open>IPointer\<close> of types.ts. The colour is an array of three numbers wherever the source
  builds a pointer, so it is a triple here.
\<close>

record IPointer =
  pointer_id :: int
  texcoordX :: real
  texcoordY :: real
  prevTexcoordX :: real
  prevTexcoordY :: real
  deltaX :: real
  deltaY :: real
  down :: bool
  moved :: bool
  color :: vec3

text \<open>
  main.ts throws at load time when there is no canvas, so its own \<open>canvas\<close> is always
  set and the guards \<open>if (!canvas) return\<close> never fire. \<open>updatePointerDownData\<close> resets
  the colour only when it is not an array of three numbers, which a triple always is.
\<close>

definition correctDeltaX :: "canvas \<Rightarrow> real \<Rightarrow> real" where
  "correctDeltaX cv delta =
     (if aspectRatio cv < 1 then delta * aspectRatio cv else delta)"

definition correctDeltaY :: "canvas \<Rightarrow> real \<Rightarrow> real" where
  "correctDeltaY cv delta =
     (if aspectRatio cv > 1 then delta / aspectRatio cv else delta)"

definition updatePointerDownData :: "canvas \<Rightarrow> IPointer \<Rightarrow> int \<Rightarrow> real \<Rightarrow> real \<Rightarrow> IPointer" where
  "updatePointerDownData cv pointer ident posX posY =
     (let x = posX / real (canvas_width cv);
          y = 1 - posY / real (canvas_height cv)
      in pointer \<lparr> pointer_id := ident, down := True, moved := False,
           texcoordX := x, texcoordY := y,
           prevTexcoordX := x, prevTexcoordY := y,
           deltaX := 0, deltaY := 0 \<rparr>)"

definition updatePointerMoveData :: "canvas \<Rightarrow> IPointer \<Rightarrow> real \<Rightarrow> real \<Rightarrow> IPointer" where
  "updatePointerMoveData cv pointer posX posY =
     (let p1 = pointer \<lparr> prevTexcoordX := texcoordX pointer,
                         prevTexcoordY := texcoordY pointer \<rparr>;
          p2 = p1 \<lparr> texcoordX := posX / real (canvas_width cv),
                    texcoordY := 1 - posY / real (canvas_height cv) \<rparr>;
          dX = texcoordX p2 - prevTexcoordX p2;
          dY = texcoordY p2 - prevTexcoordY p2;
          p3 = p2 \<lparr> deltaX := correctDeltaX cv dX, deltaY := correctDeltaY cv dY \<rparr>
      in p3 \<lparr> moved := (\<bar>deltaX p3\<bar> > 1 / 100000 \<or> \<bar>deltaY p3\<bar> > 1 / 100000) \<rparr>)"

definition updatePointerUpData :: "IPointer \<Rightarrow> IPointer" where
  "updatePointerUpData pointer = pointer \<lparr> down := False, moved := False \<rparr>"

section \<open>Applying inputs (fluidSimulation.ts, \<open>applyInputs\<close>)\<close>

text \<open>
  The calls that \<open>applyInputs\<close> makes, in order: \<open>multipleSplats(amount)\<close> for a popped
  burst request (its splats draw their position and colour from \<open>Math.random\<close>), and
  \<open>splat(x, y, dx, dy, color)\<close> as issued by \<open>splatPointer\<close> for one pointer.
\<close>

datatype splat_request =
    RandomBurst int
  | PointerSplat real real real real vec3

definition splatPointer :: "IConfig \<Rightarrow> IPointer \<Rightarrow> splat_request" where
  "splatPointer cfg pointer =
     (let dx = deltaX pointer * SPLAT_FORCE cfg;
          dy = deltaY pointer * SPLAT_FORCE cfg
      in PointerSplat (texcoordX pointer) (texcoordY pointer) dx dy (color pointer))"

record input_state =
  pointers :: "IPointer list"
  splatStack :: "int list"
  emitted :: "splat_request list"

text \<open>The body of the \<open>forEach\<close> callback: the pointer afterwards, and what it emitted.\<close>

definition applyPointer :: "IConfig \<Rightarrow> IPointer \<Rightarrow> IPointer \<times> splat_request list" where
  "applyPointer cfg p =
     (if moved p \<and> down p then (p \<lparr> moved := False \<rparr>, [splatPointer cfg p])
      else if \<not> down p then (p \<lparr> moved := False \<rparr>, [])
      else (p, []))"

fun forEachPointer :: "IConfig \<Rightarrow> IPointer list \<Rightarrow> IPointer list \<times> splat_request list" where
  "forEachPointer cfg [] = ([], [])"
| "forEachPointer cfg (p # ps) =
     (let (p', out) = applyPointer cfg p;
          (ps', outs) = forEachPointer cfg ps
      in (p' # ps', out @ outs))"

text \<open>\<open>Array.pop\<close> takes the last element.\<close>

definition applyInputs :: "IConfig \<Rightarrow> input_state \<Rightarrow> input_state" where
  "applyInputs cfg st =
     (let st1 = (if length (splatStack st) > 0
                 then st \<lparr> splatStack := butlast (splatStack st),
                           emitted := emitted st @ [RandomBurst (last (splatStack st))] \<rparr>
                 else st);
          (ps', outs) = forEachPointer cfg (pointers st1)
      in st1 \<lparr> pointers := ps', emitted := emitted st1 @ outs \<rparr>)"

section \<open>GLSL built-ins\<close>

text \<open>
  A sampler is the function that \<open>texture2D(sampler, uv)\<close> computes, already restricted
  to the channels the shader reads (\<open>.x\<close>, \<open>.xy\<close> or \<open>.rgb\<close>).
\<close>

type_synonym 'a sampler2D = "vec2 \<Rightarrow> 'a"

definition glsl_clamp :: "real \<Rightarrow> real \<Rightarrow> real \<Rightarrow> real" where
  "glsl_clamp x minVal maxVal = min (max x minVal) maxVal"

definition glsl_step :: "real \<Rightarrow> real \<Rightarrow> real" where
  "glsl_step edge x = (if x < edge then 0 else 1)"

definition mix :: "real \<Rightarrow> real \<Rightarrow> real \<Rightarrow> real" where
  "mix x y a = x * (1 - a) + y * a"

definition fract :: "real \<Rightarrow> real" where
  "fract x = x - real_of_int \<lfloor>x\<rfloor>"

definition add2 :: "vec2 \<Rightarrow> vec2 \<Rightarrow> vec2" where
  "add2 a b = (fst a + fst b, snd a + snd b)"

definition sub2 :: "vec2 \<Rightarrow> vec2 \<Rightarrow> vec2" where
  "sub2 a b = (fst a - fst b, snd a - snd b)"

definition scale2 :: "real \<Rightarrow> vec2 \<Rightarrow> vec2" where
  "scale2 k a = (k * fst a, k * snd a)"

definition dot2 :: "vec2 \<Rightarrow> vec2 \<Rightarrow> real" where
  "dot2 a b = fst a * fst b + snd a * snd b"

definition length2 :: "vec2 \<Rightarrow> real" where
  "length2 a = sqrt (dot2 a a)"

definition normalize2 :: "vec2 \<Rightarrow> vec2" where
  "normalize2 a = scale2 (1 / length2 a) a"

fun add3 :: "vec3 \<Rightarrow> vec3 \<Rightarrow> vec3" where
  "add3 (a, b, c) (x, y, z) = (a + x, b + y, c + z)"

fun scale3 :: "real \<Rightarrow> vec3 \<Rightarrow> vec3" where
  "scale3 k (x, y, z) = (k * x, k * y, k * z)"

fun dot3 :: "vec3 \<Rightarrow> vec3 \<Rightarrow> real" where
  "dot3 (a, b, c) (x, y, z) = a * x + b * y + c * z"

definition length3 :: "vec3 \<Rightarrow> real" where
  "length3 a = sqrt (dot3 a a)"

definition normalize3 :: "vec3 \<Rightarrow> vec3" where
  "normalize3 a = scale3 (1 / length3 a) a"

fun map3 :: "(real \<Rightarrow> real) \<Rightarrow> vec3 \<Rightarrow> vec3" where
  "map3 f (x, y, z) = (f x, f y, f z)"

fun max_rgb :: "vec3 \<Rightarrow> real" where
  "max_rgb (r, g, b) = max r (max g b)"

definition mix2 :: "vec2 \<Rightarrow> vec2 \<Rightarrow> real \<Rightarrow> vec2" where
  "mix2 x y a = (mix (fst x) (fst y) a, mix (snd x) (snd y) a)"

fun mix4 :: "vec4 \<Rightarrow> vec4 \<Rightarrow> real \<Rightarrow> vec4" where
  "mix4 (r, g, b, w) (r', g', b', w') a = (mix r r' a, mix g g' a, mix b b' a, mix w w' a)"

fun scale4 :: "real \<Rightarrow> vec4 \<Rightarrow> vec4" where
  "scale4 k (r, g, b, w) = (k * r, k * g, k * b, k * w)"

text \<open>The largest absolute value among the four channels of a texel.\<close>

fun maxabs4 :: "vec4 \<Rightarrow> real" where
  "maxabs4 (r, g, b, w) = max (max \<bar>r\<bar> \<bar>g\<bar>) (max \<bar>b\<bar> \<bar>w\<bar>)"

section \<open>Vertex shader (t.ts, \<open>baseVertexShaderSource\<close>)\<close>

record varyings =
  vUv :: vec2
  vL :: vec2
  vR :: vec2
  vT :: vec2
  vB :: vec2

text \<open>\<open>uv\<close> is \<open>aPosition * 0.5 + 0.5\<close>, the position of the fragment in the unit square.\<close>

definition baseVertexShader :: "vec2 \<Rightarrow> vec2 \<Rightarrow> varyings" where
  "baseVertexShader texelSize uv =
     \<lparr> vUv = uv,
       vL = sub2 uv (fst texelSize, 0),
       vR = add2 uv (fst texelSize, 0),
       vT = add2 uv (0, snd texelSize),
       vB = sub2 uv (0, snd texelSize) \<rparr>"

section \<open>Fragment shaders of the simulation (t.ts)\<close>

text \<open>Each definition returns the channels of \<open>gl_FragColor\<close> that the target stores.\<close>

definition clearShader :: "real sampler2D \<Rightarrow> real \<Rightarrow> varyings \<Rightarrow> real" where
  "clearShader uTexture val v = uTexture (vUv v) * val"

definition curlShader :: "vec2 sampler2D \<Rightarrow> varyings \<Rightarrow> real" where
  "curlShader uVelocity v =
     (let L = snd (uVelocity (vL v));
          R = snd (uVelocity (vR v));
          T = fst (uVelocity (vT v));
          B = fst (uVelocity (vB v));
          vorticity = R - L - (T - B)
      in (1 / 2) * vorticity)"

definition vorticityShader ::
    "vec2 sampler2D \<Rightarrow> real sampler2D \<Rightarrow> real \<Rightarrow> real \<Rightarrow> varyings \<Rightarrow> vec2" where
  "vorticityShader uVelocity uCurl curl dt v =
     (let L = uCurl (vL v);
          R = uCurl (vR v);
          T = uCurl (vT v);
          B = uCurl (vB v);
          C = uCurl (vUv v);
          gradient = scale2 (1 / 2) (\<bar>R\<bar> - \<bar>L\<bar>, \<bar>T\<bar> - \<bar>B\<bar>);
          N = normalize2 (add2 gradient (1 / 100000, 1 / 100000));
          force = scale2 C (scale2 curl (snd N, - fst N));
          velocity = uVelocity (vUv v)
      in add2 velocity (scale2 dt force))"

definition divergenceShader :: "vec2 sampler2D \<Rightarrow> varyings \<Rightarrow> real" where
  "divergenceShader uVelocity v =
     (let L = fst (uVelocity (vL v));
          R = fst (uVelocity (vR v));
          T = snd (uVelocity (vT v));
          B = snd (uVelocity (vB v));
          C = uVelocity (vUv v);
          eps = 1 / 100;
          L = (if fst (vL v) < eps then fst C else L);
          R = (if fst (vR v) > 1 - eps then fst C else R);
          B = (if snd (vB v) < eps then snd C else B);
          T = (if snd (vT v) > 1 - eps then snd C else T)
      in (1 / 2) * (R - L + T - B))"

definition pressureShader :: "real sampler2D \<Rightarrow> real sampler2D \<Rightarrow> varyings \<Rightarrow> real" where
  "pressureShader uPressure uDivergence v =
     (let L = uPressure (vL v);
          R = uPressure (vR v);
          T = uPressure (vT v);
          B = uPressure (vB v);
          divergence = uDivergence (vUv v);
          eps = 1 / 100;
          L = (if fst (vL v) < eps then R else L);
          R = (if fst (vR v) > 1 - eps then L else R);
          B = (if snd (vB v) < eps then T else B);
          T = (if snd (vT v) > 1 - eps then B else T)
      in (L + R + B + T - divergence) * (1 / 4))"

definition gradientSubtractShader ::
    "real sampler2D \<Rightarrow> vec2 sampler2D \<Rightarrow> varyings \<Rightarrow> vec2" where
  "gradientSubtractShader uPressure uVelocity v =
     (let L = uPressure (vL v);
          R = uPressure (vR v);
          T = uPressure (vT v);
          B = uPressure (vB v);
          gradient = scale2 (1 / 2) (R - L, T - B);
          velocity = uVelocity (vUv v)
      in sub2 velocity gradient)"

text \<open>
  \<open>bilerp\<close> of the advection shader, used by the \<open>MANUAL_FILTERING\<close> variant. GLSL
  overloads \<open>mix\<close> and the product with a float on every vector type; here the caller
  passes the instance for the channels of the source (\<open>mixf\<close>, \<open>scalef\<close>).
\<close>

definition bilerp :: "('a \<Rightarrow> 'a \<Rightarrow> real \<Rightarrow> 'a) \<Rightarrow> 'a sampler2D \<Rightarrow> vec2 \<Rightarrow> vec2 \<Rightarrow> 'a" where
  "bilerp mixf sam uv tsize =
     (let st = (fst uv / fst tsize - 1 / 2, snd uv / snd tsize - 1 / 2);
          iuv = (real_of_int \<lfloor>fst st\<rfloor>, real_of_int \<lfloor>snd st\<rfloor>);
          fuv = (fract (fst st), fract (snd st));
          a = sam ((fst iuv + 1 / 2) * fst tsize, (snd iuv + 1 / 2) * snd tsize);
          b = sam ((fst iuv + 3 / 2) * fst tsize, (snd iuv + 1 / 2) * snd tsize);
          c = sam ((fst iuv + 1 / 2) * fst tsize, (snd iuv + 3 / 2) * snd tsize);
          d = sam ((fst iuv + 3 / 2) * fst tsize, (snd iuv + 3 / 2) * snd tsize)
      in mixf (mixf a b (fst fuv)) (mixf c d (fst fuv)) (snd fuv))"

text \<open>The first argument says whether the program was compiled with \<open>MANUAL_FILTERING\<close>.\<close>

definition advectionShader ::
    "bool \<Rightarrow> ('a \<Rightarrow> 'a \<Rightarrow> real \<Rightarrow> 'a) \<Rightarrow> (real \<Rightarrow> 'a \<Rightarrow> 'a) \<Rightarrow>
     vec2 sampler2D \<Rightarrow> 'a sampler2D \<Rightarrow> vec2 \<Rightarrow> real \<Rightarrow> real \<Rightarrow> varyings \<Rightarrow> 'a" where
  "advectionShader MANUAL_FILTERING mixf scalef uVelocity uSource dyeTexelSize dt dissipation v =
     (let vel = uVelocity (vUv v);
          coord = sub2 (vUv v) (scale2 dt vel);
          result = (if MANUAL_FILTERING then bilerp mixf uSource coord dyeTexelSize
                    else uSource coord);
          decayFactor = 1 / (1 + dissipation * dt)
      in scalef decayFactor result)"

text \<open>The \<open>aspectRatio\<close> uniform is declared and set, and the line that used it is commented out.\<close>

definition splatShader ::
    "vec3 sampler2D \<Rightarrow> real \<Rightarrow> vec3 \<Rightarrow> vec2 \<Rightarrow> real \<Rightarrow> varyings \<Rightarrow> vec3 \<times> real" where
  "splatShader uTarget aspectRatio_u color_u point radius v =
     (let p = sub2 (vUv v) point;
          sqDist = dot2 p p;
          safeRadiusSq = max (radius * radius) (1 / 1000000);
          splatValue = exp (- sqDist / safeRadiusSq);
          splat = scale3 splatValue color_u;
          base = uTarget (vUv v)
      in (add3 base splat, 1))"

section \<open>Textures, sampling and draws\<close>

text \<open>
  \<open>createFBO\<close> sets both wrap modes to \<open>CLAMP_TO_EDGE\<close>: a texel index outside the
  texture is moved to the nearest one inside.
\<close>

definition clamp_to_edge :: "int \<Rightarrow> int \<Rightarrow> int" where
  "clamp_to_edge n i = max 0 (min (n - 1) i)"

definition texel :: "'a IFBO \<Rightarrow> int \<Rightarrow> int \<Rightarrow> 'a" where
  "texel t i j = texels t (clamp_to_edge (fbo_width t) i) (clamp_to_edge (fbo_height t) j)"

text \<open>
  \<open>texture2D\<close> on a texture without mipmaps, as OpenGL ES defines it: with the
  \<open>NEAREST\<close> filter the texel whose cell contains the coordinate, with the \<open>LINEAR\<close>
  filter the bilinear blend of the four texels whose centres surround it.
\<close>

definition texture2D :: "('a \<Rightarrow> 'a \<Rightarrow> real \<Rightarrow> 'a) \<Rightarrow> 'a IFBO \<Rightarrow> 'a sampler2D" where
  "texture2D mixf t uv =
     (let x = fst uv * real_of_int (fbo_width t);
          y = snd uv * real_of_int (fbo_height t)
      in if linear_filter t
         then (let i = \<lfloor>x - 1 / 2\<rfloor>; j = \<lfloor>y - 1 / 2\<rfloor>;
                   a = fract (x - 1 / 2); b = fract (y - 1 / 2)
               in mixf (mixf (texel t i j) (texel t (i + 1) j) a)
                       (mixf (texel t i (j + 1)) (texel t (i + 1) (j + 1)) a) b)
         else texel t \<lfloor>x\<rfloor> \<lfloor>y\<rfloor>)"

text \<open>The centre of fragment \<open>(i, j)\<close> of a \<open>w\<close> by \<open>h\<close> viewport, in the unit square.\<close>

definition fragment_uv :: "int \<Rightarrow> int \<Rightarrow> int \<Rightarrow> int \<Rightarrow> vec2" where
  "fragment_uv w h i j =
     ((real_of_int i + 1 / 2) / real_of_int w, (real_of_int j + 1 / 2) / real_of_int h)"

text \<open>
  \<open>blit(target, clear)\<close> with blending off: the viewport is the target, the quad covers
  it, and every texel receives what the bound program computes at its centre. The
  program is the base vertex shader with the \<open>texelSize\<close> uniform as the caller set it,
  followed by the fragment shader \<open>frag\<close> with its uniforms bound. The texel function
  is defined on all index pairs; \<open>texel\<close> reads it inside the texture only, so its values
  elsewhere never matter.
\<close>

definition blit :: "'a IFBO \<Rightarrow> vec2 \<Rightarrow> (varyings \<Rightarrow> 'a) \<Rightarrow> 'a IFBO" where
  "blit target texelSize_u frag =
     target \<lparr> texels := (\<lambda>i j. frag (baseVertexShader texelSize_u
                  (fragment_uv (fbo_width target) (fbo_height target) i j))) \<rparr>"

text \<open>\<open>blit(d.write, true); d.swap()\<close>.\<close>

definition blit_swap :: "'a IDoubleFBO \<Rightarrow> vec2 \<Rightarrow> (varyings \<Rightarrow> 'a) \<Rightarrow> 'a IDoubleFBO" where
  "blit_swap d texelSize_u frag =
     swap_fbo (d \<lparr> fbo2 := blit (write_fbo d) texelSize_u frag \<rparr>)"

section \<open>The simulation step (fluidSimulation.ts, \<open>step\<close>)\<close>

record sim_fbos =
  velocity :: "vec2 IDoubleFBO"
  curl :: "real IFBO"
  divergence :: "real IFBO"
  pressure :: "real IDoubleFBO"
  dye :: "vec4 IDoubleFBO"

text \<open>
  The sub-passes of \<open>step\<close>, in the order of the source. \<open>ts\<close> is the pair
  \<open>(velocity.texelSizeX, velocity.texelSizeY)\<close> that \<open>step\<close> hands to the \<open>texelSize\<close>
  uniform of each program it binds.
\<close>

definition curl_pass :: "vec2 \<Rightarrow> sim_fbos \<Rightarrow> sim_fbos" where
  "curl_pass ts s =
     s \<lparr> curl := blit (curl s) ts (curlShader (texture2D mix2 (read_fbo (velocity s)))) \<rparr>"

definition vorticity_pass :: "IConfig \<Rightarrow> vec2 \<Rightarrow> real \<Rightarrow> sim_fbos \<Rightarrow> sim_fbos" where
  "vorticity_pass cfg ts dt s =
     s \<lparr> velocity := blit_swap (velocity s) ts
            (vorticityShader (texture2D mix2 (read_fbo (velocity s)))
               (texture2D mix (curl s)) (CURL cfg) dt) \<rparr>"

definition divergence_pass :: "vec2 \<Rightarrow> sim_fbos \<Rightarrow> sim_fbos" where
  "divergence_pass ts s =
     s \<lparr> divergence := blit (divergence s) ts
            (divergenceShader (texture2D mix2 (read_fbo (velocity s)))) \<rparr>"

text \<open>
  Sub-pass 4. \<open>clearProgram\<close> never has its \<open>texelSize\<close> uniform set, so it is zero.
\<close>

definition pressure_fade :: "IConfig \<Rightarrow> real IDoubleFBO \<Rightarrow> real IDoubleFBO" where
  "pressure_fade cfg p =
     blit_swap p (0, 0) (clearShader (texture2D mix (read_fbo p)) (PRESSURE cfg))"

text \<open>The body of the loop of sub-pass 5, and the loop.\<close>

definition pressure_iteration :: "vec2 \<Rightarrow> real IFBO \<Rightarrow> real IDoubleFBO \<Rightarrow> real IDoubleFBO" where
  "pressure_iteration ts dv p =
     blit_swap p ts (pressureShader (texture2D mix (read_fbo p)) (texture2D mix dv))"

function pressure_solve ::
    "int \<Rightarrow> int \<Rightarrow> vec2 \<Rightarrow> real IFBO \<Rightarrow> real IDoubleFBO \<Rightarrow> real IDoubleFBO" where
  "pressure_solve i n ts dv p =
     (if i < n then pressure_solve (i + 1) n ts dv (pressure_iteration ts dv p) else p)"
  by pat_completeness auto
termination
  by (relation "measure (\<lambda>(i, n, ts, dv, p). nat (n - i))") auto

declare pressure_solve.simps [simp del]

definition pressure_pass :: "IConfig \<Rightarrow> vec2 \<Rightarrow> sim_fbos \<Rightarrow> sim_fbos" where
  "pressure_pass cfg ts s =
     (let s4 = s \<lparr> pressure := pressure_fade cfg (pressure s) \<rparr>
      in s4 \<lparr> pressure := pressure_solve 0 (PRESSURE_ITERATIONS cfg) ts
                             (divergence s4) (pressure s4) \<rparr>)"

definition gradient_subtract_pass :: "vec2 \<Rightarrow> sim_fbos \<Rightarrow> sim_fbos" where
  "gradient_subtract_pass ts s =
     s \<lparr> velocity := blit_swap (velocity s) ts
            (gradientSubtractShader (texture2D mix (read_fbo (pressure s)))
               (texture2D mix2 (read_fbo (velocity s)))) \<rparr>"

definition advect_velocity_pass :: "IConfig \<Rightarrow> bool \<Rightarrow> vec2 \<Rightarrow> real \<Rightarrow> sim_fbos \<Rightarrow> sim_fbos" where
  "advect_velocity_pass cfg supportLinearFiltering ts dt s =
     s \<lparr> velocity := blit_swap (velocity s) ts
            (advectionShader (\<not> supportLinearFiltering) mix2 scale2
               (texture2D mix2 (read_fbo (velocity s)))
               (texture2D mix2 (read_fbo (velocity s)))
               ts dt (VELOCITY_DISSIPATION cfg)) \<rparr>"

text \<open>Sub-pass 8; the \<open>dt\<close> uniform is the one set for sub-pass 7.\<close>

definition advect_dye_pass :: "IConfig \<Rightarrow> bool \<Rightarrow> vec2 \<Rightarrow> real \<Rightarrow> sim_fbos \<Rightarrow> sim_fbos" where
  "advect_dye_pass cfg supportLinearFiltering ts dt s =
     s \<lparr> dye := blit_swap (dye s) ts
            (advectionShader (\<not> supportLinearFiltering) mix4 scale4
               (texture2D mix2 (read_fbo (velocity s)))
               (texture2D mix4 (read_fbo (dye s)))
               (d_texelSizeX (dye s), d_texelSizeY (dye s)) dt (DENSITY_DISSIPATION cfg)) \<rparr>"

text \<open>The eight sub-passes, once the guards on missing framebuffers and programs have passed.\<close>

definition step_passes :: "IConfig \<Rightarrow> bool \<Rightarrow> real \<Rightarrow> sim_fbos \<Rightarrow> sim_fbos" where
  "step_passes cfg supportLinearFiltering dt s0 =
     (let ts = (d_texelSizeX (velocity s0), d_texelSizeY (velocity s0));
          s1 = curl_pass ts s0;
          s2 = vorticity_pass cfg ts dt s1;
          s3 = divergence_pass ts s2;
          s5 = pressure_pass cfg ts s3;
          s6 = gradient_subtract_pass ts s5;
          s7 = advect_velocity_pass cfg supportLinearFiltering ts dt s6
      in advect_dye_pass cfg supportLinearFiltering ts dt s7)"

text \<open>
  \<open>step\<close>: \<open>None\<close> stands for a simulation whose framebuffers or programs are missing,
  which \<open>step\<close> leaves as it is.
\<close>

definition step :: "IConfig \<Rightarrow> bool \<Rightarrow> real \<Rightarrow> sim_fbos option \<Rightarrow> sim_fbos option" where
  "step cfg supportLinearFiltering dt sim =
     (case sim of
        None \<Rightarrow> None
      | Some s \<Rightarrow> Some (step_passes cfg supportLinearFiltering dt s))"

text \<open>\<open>N\<close> consecutive frames in which nothing but \<open>step\<close> touches the fields.\<close>

fun frames :: "IConfig \<Rightarrow> bool \<Rightarrow> real \<Rightarrow> nat \<Rightarrow> sim_fbos option \<Rightarrow> sim_fbos option" where
  "frames cfg supportLinearFiltering dt 0 sim = sim"
| "frames cfg supportLinearFiltering dt (Suc n) sim =
     frames cfg supportLinearFiltering dt n (step cfg supportLinearFiltering dt sim)"

text \<open>
  The largest absolute channel value over the texels of a texture (0 for a texture
  without texels).
\<close>

definition max_abs :: "vec4 IFBO \<Rightarrow> real" where
  "max_abs t =
     fold max (map (\<lambda>(i, j). maxabs4 (texels t i j))
                 (List.product [0..fbo_width t - 1] [0..fbo_height t - 1])) 0"

section \<open>Splat uniforms (fluidSimulation.ts, \<open>correctRadius\<close> and \<open>splat\<close>)\<close>

definition correctRadius :: "canvas option \<Rightarrow> real \<Rightarrow> real" where
  "correctRadius canvas radius =
     (case canvas of
        None \<Rightarrow> radius
      | Some cv \<Rightarrow> (if aspectRatio cv > 1 then radius * aspectRatio cv else radius))"

record splat_uniforms =
  u_aspectRatio :: real
  u_point :: vec2
  u_radius :: real

text \<open>
  The uniforms that \<open>splat\<close> sets once before its two draws. \<open>splat\<close> returns without
  drawing when the canvas is unset or when the context, a framebuffer or the program is
  missing (\<open>ready\<close> false).
\<close>

definition splat ::
    "canvas option \<Rightarrow> bool \<Rightarrow> IConfig \<Rightarrow> real \<Rightarrow> real \<Rightarrow> real \<Rightarrow> splat_uniforms option" where
  "splat canvas ready cfg x y radiusMultiplier =
     (case canvas of
        None \<Rightarrow> None
      | Some cv \<Rightarrow>
          (if \<not> ready then None
           else (let aspect = aspectRatio cv;
                     baseRadius = SPLAT_RADIUS cfg / 100;
                     correctedRadius = correctRadius canvas baseRadius * radiusMultiplier
                 in Some \<lparr> u_aspectRatio = aspect, u_point = (x, y),
                           u_radius = correctedRadius \<rparr>)))"

section \<open>Bloom pre-filter (t.ts, \<open>bloomPrefilterShaderSource\<close>; fluidSimulation.ts, \<open>applyBloom\<close>)\<close>

definition bloomPrefilterShader :: "vec3 sampler2D \<Rightarrow> vec3 \<Rightarrow> real \<Rightarrow> varyings \<Rightarrow> vec3 \<times> real" where
  "bloomPrefilterShader uTexture curve threshold v =
     (let c = uTexture (vUv v);
          br = max_rgb c;
          rq = glsl_clamp (br - fst curve) 0 (fst (snd curve));
          rq = snd (snd curve) * rq * rq;
          c = scale3 (max rq (glsl_step threshold br) / max br (1 / 10000)) c
      in (c, 1))"

text \<open>The pre-filter draw of \<open>applyBloom\<close>: the uniforms it computes, then the shader.\<close>

definition applyBloom_prefilter :: "IConfig \<Rightarrow> vec3 sampler2D \<Rightarrow> varyings \<Rightarrow> vec3 \<times> real" where
  "applyBloom_prefilter cfg source v =
     (let knee = BLOOM_THRESHOLD cfg * BLOOM_SOFT_KNEE cfg + 1 / 100000;
          curve0 = BLOOM_THRESHOLD cfg - knee;
          curve1 = knee * 2;
          curve2 = (25 / 100) / knee
      in bloomPrefilterShader source (curve0, curve1, curve2) (BLOOM_THRESHOLD cfg) v)"

section \<open>Display shader (t.ts, \<open>displayShaderSource\<close>)\<close>

definition linearToGamma :: "vec3 \<Rightarrow> vec3" where
  "linearToGamma color_in =
     (let c = map3 (\<lambda>x. max x 0) color_in
      in map3 (\<lambda>x. max (1055 / 1000 * (x powr (1 / (24 / 10))) - 55 / 1000) 0) c)"

record display_uniforms =
  uTexture :: "vec3 sampler2D"
  uBloom :: "vec3 sampler2D"
  uSunrays :: "real sampler2D"
  uDithering :: "real sampler2D"
  ditherScale :: vec2
  texelSize :: vec2

text \<open>
  The three booleans are the keywords the program was compiled with; \<open>updateDisplayProgram\<close>
  takes them from \<open>config.SHADING\<close>, \<open>config.BLOOM\<close> and \<open>config.SUNRAYS\<close>.
\<close>

definition displayShader ::
    "bool \<Rightarrow> bool \<Rightarrow> bool \<Rightarrow> display_uniforms \<Rightarrow> varyings \<Rightarrow> vec3 \<times> real" where
  "displayShader shading bloom_kw sunrays_kw u v =
     (let c = uTexture u (vUv v);
          c = (if shading then
                 (let lc = uTexture u (vL v);
                      rc = uTexture u (vR v);
                      tc = uTexture u (vT v);
                      bc = uTexture u (vB v);
                      dx = length3 rc - length3 lc;
                      dy = length3 tc - length3 bc;
                      n = normalize3 (dx, dy, max (length2 (texelSize u) * 2) (1 / 10000));
                      l = normalize3 (0, 0, 1);
                      diffuse = glsl_clamp (dot3 n l * (3 / 10) + 7 / 10) (7 / 10) 1
                  in scale3 diffuse c)
               else c);
          bloom = uBloom u (vUv v);
          c = (if sunrays_kw then scale3 (uSunrays u (vUv v)) c else c);
          bloom = (if sunrays_kw then scale3 (uSunrays u (vUv v)) bloom else bloom);
          c = (if bloom_kw then
                 (let noise = uDithering u (fst (vUv v) * fst (ditherScale u),
                                            snd (vUv v) * snd (ditherScale u));
                      noise = noise * 2 - 1;
                      bloom = add3 bloom (noise / 255, noise / 255, noise / 255);
                      bloom = linearToGamma bloom
                  in add3 c bloom)
               else c);
          a = max_rgb c
      in (c, glsl_clamp a 0 1))"

section \<open>Display draw (fluidSimulation.ts, \<open>render\<close> and \<open>drawDisplay\<close>)\<close>

type_synonym rgba = "vec3 \<times> real"

text \<open>
  What a colour buffer with normalised fixed-point channels takes from a colour: every
  channel clamped to [0, 1] (OpenGL ES, for the fragment colour entering the blend and
  for the value stored). The canvas that \<open>render(null)\<close> draws to is such a buffer; an
  \<open>IFBO\<close> of this program is a half-float texture and stores the value as it is.
\<close>

definition fixed_point :: "rgba \<Rightarrow> rgba" where
  "fixed_point c = (map3 (\<lambda>x. glsl_clamp x 0 1) (fst c), glsl_clamp (snd c) 0 1)"

text \<open>\<open>gl.blendFunc(gl.SRC_ALPHA, gl.ONE_MINUS_SRC_ALPHA)\<close>, on colour and alpha alike.\<close>

definition blend_SRC_ALPHA :: "rgba \<Rightarrow> rgba \<Rightarrow> rgba" where
  "blend_SRC_ALPHA src dst =
     (add3 (scale3 (snd src) (fst src)) (scale3 (1 - snd src) (fst dst)),
      snd src * snd src + snd dst * (1 - snd src))"

text \<open>
  The value a fragment leaves in the target, given the value \<open>dst\<close> that is there:
  \<open>fixed\<close> says that the target has fixed-point channels, \<open>blend\<close> that blending is on.
\<close>

definition write_fragment :: "bool \<Rightarrow> bool \<Rightarrow> rgba \<Rightarrow> rgba \<Rightarrow> rgba" where
  "write_fragment fixed blend frag dst =
     (let src = (if fixed then fixed_point frag else frag);
          out = (if blend then blend_SRC_ALPHA src dst else src)
      in if fixed then fixed_point out else out)"

text \<open>
  The display draw of \<open>render(target)\<close>: \<open>render\<close> turns blending on when
  \<open>target == null || !config.TRANSPARENT\<close>, draws the background, and \<open>drawDisplay\<close>
  blits the display program over it without clearing. \<open>dst\<close> is the background value at
  the fragment. The frame loop of main.ts calls \<open>render(null)\<close>.
\<close>

definition drawDisplay ::
    "'a IFBO option \<Rightarrow> IConfig \<Rightarrow> bool \<Rightarrow> bool \<Rightarrow> bool \<Rightarrow> display_uniforms \<Rightarrow> varyings
     \<Rightarrow> rgba \<Rightarrow> rgba" where
  "drawDisplay target cfg shading bloom_kw sunrays_kw u v dst =
     write_fragment (target = None) (target = None \<or> \<not> TRANSPARENT cfg)
       (displayShader shading bloom_kw sunrays_kw u v) dst"

section \<open>Notions used by the theorems\<close>


text \<open>
  The Jacobi update as the specification writes it: the four neighbours of the previous
  pressure minus the divergence, over four.
\<close>

definition jacobi_formula ::
    "(int \<Rightarrow> int \<Rightarrow> real) \<Rightarrow> (int \<Rightarrow> int \<Rightarrow> real) \<Rightarrow> int \<Rightarrow> int \<Rightarrow> real" where
  "jacobi_formula p dv x y =
     (p (x - 1) y + p (x + 1) y + p x (y - 1) + p x (y + 1) - dv x y) / 4"

text \<open>
  The Jacobi update with the four edge guards of the pressure shader, written on texels:
  the guards compare the coordinate of the neighbour sample with 0.01 and 0.99.
\<close>

definition jacobi_guarded :: "int \<Rightarrow> int \<Rightarrow> real IFBO \<Rightarrow> real IFBO \<Rightarrow> int \<Rightarrow> int \<Rightarrow> real" where
  "jacobi_guarded w h p dv x y =
     (let L = (if (real_of_int x - 1 / 2) / real_of_int w < 1 / 100
               then texel p (x + 1) y else texel p (x - 1) y);
          R = (if (real_of_int x + 3 / 2) / real_of_int w > 1 - 1 / 100
               then L else texel p (x + 1) y);
          B = (if (real_of_int y - 1 / 2) / real_of_int h < 1 / 100
               then texel p x (y + 1) else texel p x (y - 1));
          T = (if (real_of_int y + 3 / 2) / real_of_int h > 1 - 1 / 100
               then B else texel p x (y + 1))
      in (L + R + B + T - texel dv x y) / 4)"

text \<open>Texel \<open>(x, y)\<close> of a \<open>w\<close> by \<open>h\<close> grid is one at which none of the four guards fires.\<close>

definition edge_free :: "int \<Rightarrow> int \<Rightarrow> int \<Rightarrow> int \<Rightarrow> bool" where
  "edge_free w h x y \<longleftrightarrow>
     \<not> (real_of_int x - 1 / 2) / real_of_int w < 1 / 100 \<and>
     \<not> (real_of_int x + 3 / 2) / real_of_int w > 1 - 1 / 100 \<and>
     \<not> (real_of_int y - 1 / 2) / real_of_int h < 1 / 100 \<and>
     \<not> (real_of_int y + 3 / 2) / real_of_int h > 1 - 1 / 100"

text \<open>
  The shape \<open>initFramebuffersAndEffects\<close> gives the pressure pair and, below, the whole
  simulation grid: one size \<open>w\<close> by \<open>h\<close>, the \<open>NEAREST\<close> filter on pressure and divergence,
  and the texel size of the velocity pair equal to \<open>(1/w, 1/h)\<close>.
\<close>

definition pressure_grid :: "real IDoubleFBO \<Rightarrow> int \<Rightarrow> int \<Rightarrow> bool" where
  "pressure_grid p w h \<longleftrightarrow>
     fbo_width (fbo1 p) = w \<and> fbo_height (fbo1 p) = h \<and> \<not> linear_filter (fbo1 p) \<and>
     fbo_width (fbo2 p) = w \<and> fbo_height (fbo2 p) = h \<and> \<not> linear_filter (fbo2 p)"

definition sim_grid :: "sim_fbos \<Rightarrow> int \<Rightarrow> int \<Rightarrow> bool" where
  "sim_grid s w h \<longleftrightarrow>
     0 < w \<and> 0 < h \<and>
     d_texelSizeX (velocity s) = 1 / real_of_int w \<and>
     d_texelSizeY (velocity s) = 1 / real_of_int h \<and>
     fbo_width (divergence s) = w \<and> fbo_height (divergence s) = h \<and>
     \<not> linear_filter (divergence s) \<and>
     pressure_grid (pressure s) w h"

text \<open>
  The shape of the dye pair: both textures \<open>w\<close> by \<open>h\<close>, with at least one texel.
\<close>

definition dye_grid :: "vec4 IDoubleFBO \<Rightarrow> int \<Rightarrow> int \<Rightarrow> bool" where
  "dye_grid d w h \<longleftrightarrow>
     0 < w \<and> 0 < h \<and>
     fbo_width (fbo1 d) = w \<and> fbo_height (fbo1 d) = h \<and>
     fbo_width (fbo2 d) = w \<and> fbo_height (fbo2 d) = h"

text \<open>
  The sample of the dye that the advection shader takes for texel \<open>(x, y)\<close>: the dye at
  the centre of the texel moved back by \<open>dt\<close> times the velocity sampled there, read with
  the hardware filter or with \<open>bilerp\<close>.
\<close>

definition backtraced :: "bool \<Rightarrow> real \<Rightarrow> vec2 IFBO \<Rightarrow> vec4 IDoubleFBO \<Rightarrow> int \<Rightarrow> int \<Rightarrow> vec4" where
  "backtraced lin dt vel d x y =
     (let uv = fragment_uv (fbo_width (write_fbo d)) (fbo_height (write_fbo d)) x y;
          coord = sub2 uv (scale2 dt (texture2D mix2 vel uv))
      in if lin then texture2D mix4 (read_fbo d) coord
         else bilerp mix4 (texture2D mix4 (read_fbo d)) coord (d_texelSizeX d, d_texelSizeY d))"

section \<open>Example inputs\<close>

text \<open>A 200 x 100 canvas, a square canvas of 150000 pixels a side, and the pointer that
  \<open>initSimulation\<close> registers for the mouse.\<close>

definition wide_canvas :: canvas where
  "wide_canvas = \<lparr> canvas_width = 200, canvas_height = 100 \<rparr>"

definition huge_canvas :: canvas where
  "huge_canvas = \<lparr> canvas_width = 150000, canvas_height = 150000 \<rparr>"

definition fresh_pointer :: IPointer where
  "fresh_pointer = \<lparr> pointer_id = - 1, texcoordX = 0, texcoordY = 0,
     prevTexcoordX = 0, prevTexcoordY = 0, deltaX = 0, deltaY = 0,
     down = False, moved = False, color = (1 / 10, 1 / 10, 1 / 10) \<rparr>"

text \<open>
  Framebuffers as \<open>createFBO\<close> and \<open>createDoubleFBO\<close> return them, every texel \<open>blank\<close>.
\<close>

definition blank_fbo :: "int \<Rightarrow> int \<Rightarrow> bool \<Rightarrow> 'a \<Rightarrow> 'a IFBO" where
  "blank_fbo w h param blank =
     \<lparr> fbo_width = w, fbo_height = h,
       texelSizeX = 1 / real_of_int w, texelSizeY = 1 / real_of_int h,
       linear_filter = param, texels = (\<lambda>i j. blank) \<rparr>"

definition blank_double :: "int \<Rightarrow> int \<Rightarrow> bool \<Rightarrow> 'a \<Rightarrow> 'a IDoubleFBO" where
  "blank_double w h param blank =
     \<lparr> d_width = w, d_height = h,
       d_texelSizeX = 1 / real_of_int w, d_texelSizeY = 1 / real_of_int h,
       fbo1 = blank_fbo w h param blank, fbo2 = blank_fbo w h param blank \<rparr>"

text \<open>
  A 128 x 128 simulation grid at rest whose pressure rises by one per texel from left to
  right.
\<close>

definition ramp_pressure :: "real IDoubleFBO" where
  "ramp_pressure = (blank_double 128 128 False 0)
     \<lparr> fbo1 := (blank_fbo 128 128 False 0) \<lparr> texels := (\<lambda>i j. real_of_int i) \<rparr> \<rparr>"

definition ramp_sim :: sim_fbos where
  "ramp_sim = \<lparr> velocity = blank_double 128 128 True (0, 0),
                curl = blank_fbo 128 128 False 0,
                divergence = blank_fbo 128 128 False 0,
                pressure = ramp_pressure,
                dye = blank_double 1024 1024 True (0, 0, 0, 0) \<rparr>"

text \<open>
  A 2 x 1 simulation grid moving uniformly to the left, pressure zero, and a 4 x 2 dye
  whose texel (0, 0) is (2, 0, 0, 1) on a background of (0, 0, 0, 1).
\<close>

definition drift_dye :: "vec4 IDoubleFBO" where
  "drift_dye = (blank_double 4 2 True (0, 0, 0, 1))
     \<lparr> fbo1 := (blank_fbo 4 2 True (0, 0, 0, 1))
          \<lparr> texels := (\<lambda>i j. if i = 0 \<and> j = 0 then (2, 0, 0, 1) else (0, 0, 0, 1)) \<rparr> \<rparr>"

definition drift_sim :: sim_fbos where
  "drift_sim = \<lparr> velocity = blank_double 2 1 True (- 101 / 40, 0),
                 curl = blank_fbo 2 1 False 0,
                 divergence = blank_fbo 2 1 False 0,
                 pressure = blank_double 2 1 False 0,
                 dye = drift_dye \<rparr>"

section \<open>Theorems\<close>

subsection \<open>Frame time\<close>

text \<open>
  C3 (as the code has it). The time step handed to \<open>step\<close> is the minimum of the raw
  frame time and 0.05: it never exceeds 0.05, a raw frame time of 0 gives 0, a raw frame
  time of 0.06 s gives 0.05, and the time step is non-negative exactly when the clock has
  not gone backwards. There is no lower clamp.
\<close>

theorem calcDeltaTime_upper_clamp:
  "fst (calcDeltaTime now lastT) = min (real_of_int (now - lastT) / 1000) (5 / 100) \<and>
   fst (calcDeltaTime now lastT) \<le> 5 / 100 \<and>
   (0 \<le> fst (calcDeltaTime now lastT)) = (lastT \<le> now) \<and>
   fst (calcDeltaTime lastT lastT) = 0 \<and>
   fst (calcDeltaTime (lastT + 60) lastT) = 5 / 100 \<and>
   snd (calcDeltaTime now lastT) = now"
  by (simp add: calcDeltaTime_def Let_def min_def)

text \<open>
  C3, counterexample: the clock read one second earlier than the stored reading (the
  wall clock of \<open>Date.now()\<close> was set back). The time step is \<open>-1\<close>, outside \<open>[0, 0.05]\<close>.
\<close>

theorem calcDeltaTime_negative_counterexample:
  "fst (calcDeltaTime 0 1000) = - 1 \<and>
   \<not> (0 \<le> fst (calcDeltaTime 0 1000) \<and> fst (calcDeltaTime 0 1000) \<le> 5 / 100)"
  by (simp add: calcDeltaTime_def Let_def)

subsection \<open>Grid sizes\<close>

lemma getResolution_ge_1:
  "1 \<le> res_width (getResolution (Some cv) r) \<and> 1 \<le> res_height (getResolution (Some cv) r)"
  by (simp add: getResolution_def Let_def split: prod.splits)

lemma bloom_sizes_ge_2: "(w, h) \<in> set (bloom_sizes i n lastW lastH) \<Longrightarrow> 2 \<le> w \<and> 2 \<le> h"
proof (induction i n lastW lastH rule: bloom_sizes.induct)
  case (1 i n lastWidth lastHeight)
  show ?case
  proof (cases "i < n \<and> \<not> (shift_right_1 lastWidth < 2 \<or> shift_right_1 lastHeight < 2)")
    case True
    with "1.prems" have "(w, h) = (shift_right_1 lastWidth, shift_right_1 lastHeight) \<or>
        (w, h) \<in> set (bloom_sizes (i + 1) n (shift_right_1 lastWidth) (shift_right_1 lastHeight))"
      by (subst (asm) bloom_sizes.simps) (simp add: Let_def)
    then show ?thesis
    proof
      assume "(w, h) = (shift_right_1 lastWidth, shift_right_1 lastHeight)"
      with True show ?thesis by simp
    next
      assume "(w, h) \<in> set (bloom_sizes (i + 1) n (shift_right_1 lastWidth)
                               (shift_right_1 lastHeight))"
      with True "1.IH" [OF _ refl refl] show ?thesis by simp
    qed
  next
    case False
    with "1.prems" show ?thesis
      by (subst (asm) bloom_sizes.simps) (auto simp: Let_def)
  qed
qed

text \<open>
  C10. For a positive configured resolution, and a canvas that is unset or has at least
  one pixel on each side, \<open>getResolution\<close> returns a width and a height of at least 1,
  \<open>createFBO\<close> on these sizes never raises the invalid-dimensions error, and neither does
  it on the sizes of the bloom chain derived from them, which are at least 2 on each
  side.
\<close>

theorem getResolution_positive:
  assumes "0 < resolution"
    and "case canvas of None \<Rightarrow> True | Some cv \<Rightarrow> 0 < canvas_width cv \<and> 0 < canvas_height cv"
  shows "1 \<le> res_width (getResolution canvas resolution) \<and>
         1 \<le> res_height (getResolution canvas resolution) \<and>
         (\<forall>gl param blank w h.
            createFBO gl (res_width (getResolution canvas resolution))
              (res_height (getResolution canvas resolution)) param (blank :: real)
              \<noteq> Inl (InvalidDimensions w h)) \<and>
         (\<forall>n gl param blank w h. \<forall>(cw, ch) \<in> set (bloom_sizes 0 n
               (res_width (getResolution canvas resolution))
               (res_height (getResolution canvas resolution))).
            2 \<le> cw \<and> 2 \<le> ch \<and>
            createFBO gl cw ch param (blank :: real) \<noteq> Inl (InvalidDimensions w h))"
proof -
  have dims: "1 \<le> res_width (getResolution canvas resolution) \<and>
              1 \<le> res_height (getResolution canvas resolution)"
  proof (cases canvas)
    case None
    with assms(1) show ?thesis by (simp add: getResolution_def)
  next
    case (Some cv)
    then show ?thesis using getResolution_ge_1 by simp
  qed
  have chain: "2 \<le> cw \<and> 2 \<le> ch \<and>
      createFBO gl cw ch param (blank :: real) \<noteq> Inl (InvalidDimensions w h)"
    if "(cw, ch) \<in> set (bloom_sizes 0 n lastW lastH)" for cw ch n lastW lastH gl param blank w h
    using bloom_sizes_ge_2 [OF that] by (auto simp: createFBO_def)
  from dims have main: "\<forall>gl param blank w h.
            createFBO gl (res_width (getResolution canvas resolution))
              (res_height (getResolution canvas resolution)) param (blank :: real)
              \<noteq> Inl (InvalidDimensions w h)"
    by (auto simp: createFBO_def)
  from chain have chain': "\<forall>n gl param blank w h. \<forall>(cw, ch) \<in> set (bloom_sizes 0 n
               (res_width (getResolution canvas resolution))
               (res_height (getResolution canvas resolution))).
            2 \<le> cw \<and> 2 \<le> ch \<and>
            createFBO gl cw ch param (blank :: real) \<noteq> Inl (InvalidDimensions w h)"
    by blast
  show ?thesis
    by (intro conjI dims [THEN conjunct1] dims [THEN conjunct2] main chain')
qed

theorem getResolution_positive_witness:
  "getResolution (Some \<lparr> canvas_width = 1, canvas_height = 480 \<rparr>) 128
     = \<lparr> res_width = 128, res_height = 61440 \<rparr> \<and>
   getResolution (Some \<lparr> canvas_width = 640, canvas_height = 480 \<rparr>) 256
     = \<lparr> res_width = 341, res_height = 256 \<rparr> \<and>
   bloom_sizes 0 8 341 256
     = [(170, 128), (85, 64), (42, 32), (21, 16), (10, 8), (5, 4), (2, 2)] \<and>
   createFBO \<lparr> gl_present = True, createTexture_ok = True, createFramebuffer_ok = True,
              framebuffer_complete = True \<rparr> 341 256 True (0 :: real)
     \<noteq> Inl (InvalidDimensions 341 256) \<and>
   createFBO \<lparr> gl_present = True, createTexture_ok = True, createFramebuffer_ok = True,
              framebuffer_complete = True \<rparr> 2 2 True (0 :: real)
     \<noteq> Inl (InvalidDimensions 2 2)"
proof -
  let ?cv = "Some \<lparr> canvas_width = 640, canvas_height = 480 \<rparr>"
  let ?gl = "\<lparr> gl_present = True, createTexture_ok = True, createFramebuffer_ok = True,
              framebuffer_complete = True \<rparr>"
  have r1: "getResolution (Some \<lparr> canvas_width = 1, canvas_height = 480 \<rparr>) 128
     = \<lparr> res_width = 128, res_height = 61440 \<rparr>"
    by (simp add: getResolution_def aspectRatio_def Math_round_def Let_def)
  have r2: "getResolution ?cv 256 = \<lparr> res_width = 341, res_height = 256 \<rparr>"
    by (simp add: getResolution_def aspectRatio_def Math_round_def Let_def)
  have chain: "bloom_sizes 0 8 341 256
     = [(170, 128), (85, 64), (42, 32), (21, 16), (10, 8), (5, 4), (2, 2)]"
    by (simp add: bloom_sizes.simps shift_right_1_def ToInt32_def Let_def)
  have pos: "(0 :: int) < 256" and cv: "case ?cv of None \<Rightarrow> True
      | Some cv \<Rightarrow> 0 < canvas_width cv \<and> 0 < canvas_height cv"
    by simp_all
  note T = getResolution_positive [OF pos cv]
  from T [THEN conjunct2, THEN conjunct2, THEN conjunct1, rule_format, of ?gl True 0 341 256]
  have main: "createFBO ?gl 341 256 True (0 :: real) \<noteq> Inl (InvalidDimensions 341 256)"
    by (simp add: r2)
  have mem: "(2, 2) \<in> set (bloom_sizes 0 8 (res_width (getResolution ?cv 256))
                               (res_height (getResolution ?cv 256)))"
    by (simp add: r2 chain)
  from T [THEN conjunct2, THEN conjunct2, THEN conjunct2, rule_format, OF mem,
      of ?gl True 0 2 2]
  have last: "createFBO ?gl 2 2 True (0 :: real) \<noteq> Inl (InvalidDimensions 2 2)"
    by simp
  show ?thesis using r1 r2 chain main last by simp
qed

subsection \<open>Pointer moves\<close>

lemma updatePointerMoveData_deltas:
  "deltaX (updatePointerMoveData cv p posX posY) =
     correctDeltaX cv (posX / real (canvas_width cv) - texcoordX p) \<and>
   deltaY (updatePointerMoveData cv p posX posY) =
     correctDeltaY cv (1 - posY / real (canvas_height cv) - texcoordY p) \<and>
   moved (updatePointerMoveData cv p posX posY) =
     (\<bar>deltaX (updatePointerMoveData cv p posX posY)\<bar> > 1 / 100000 \<or>
      \<bar>deltaY (updatePointerMoveData cv p posX posY)\<bar> > 1 / 100000) \<and>
   down (updatePointerMoveData cv p posX posY) = down p"
  by (simp add: updatePointerMoveData_def Let_def)

lemma unmoved_update: "\<not> moved p \<Longrightarrow> p \<lparr> moved := False \<rparr> = (p :: IPointer)"
  by (cases p) simp

lemma forEachPointer_result:
  "forEachPointer cfg ps =
     (map (\<lambda>p. p \<lparr> moved := False \<rparr>) ps,
      map (splatPointer cfg) (filter (\<lambda>p. moved p \<and> down p) ps))"
  by (induction ps) (auto simp: applyPointer_def unmoved_update)

lemma applyInputs_result:
  "pointers (applyInputs cfg st) = map (\<lambda>p. p \<lparr> moved := False \<rparr>) (pointers st) \<and>
   splatStack (applyInputs cfg st) = butlast (splatStack st) \<and>
   emitted (applyInputs cfg st) =
     emitted st
     @ (if splatStack st = [] then [] else [RandomBurst (last (splatStack st))])
     @ map (splatPointer cfg) (filter (\<lambda>p. moved p \<and> down p) (pointers st))"
  by (simp add: applyInputs_def Let_def forEachPointer_result)

text \<open>
  C5 (as the code has it). On a canvas with pixels on both sides, a pointer move takes
  the raw delta (current minus previous) and corrects it like this: on a surface wider
  than tall the vertical delta is divided by the aspect ratio and the horizontal delta
  is left as it is; on a surface taller than wide the horizontal delta is multiplied by
  the aspect ratio and the vertical delta is left as it is; on a square surface both are
  left as they are.
\<close>

theorem updatePointerMoveData_aspect_correction:
  assumes "0 < canvas_width cv" and "0 < canvas_height cv"
  shows "(canvas_width cv > canvas_height cv \<longrightarrow>
            deltaX (updatePointerMoveData cv p posX posY)
              = posX / real (canvas_width cv) - texcoordX p \<and>
            deltaY (updatePointerMoveData cv p posX posY)
              = (1 - posY / real (canvas_height cv) - texcoordY p) / aspectRatio cv) \<and>
         (canvas_width cv < canvas_height cv \<longrightarrow>
            deltaX (updatePointerMoveData cv p posX posY)
              = (posX / real (canvas_width cv) - texcoordX p) * aspectRatio cv \<and>
            deltaY (updatePointerMoveData cv p posX posY)
              = 1 - posY / real (canvas_height cv) - texcoordY p) \<and>
         (canvas_width cv = canvas_height cv \<longrightarrow>
            deltaX (updatePointerMoveData cv p posX posY)
              = posX / real (canvas_width cv) - texcoordX p \<and>
            deltaY (updatePointerMoveData cv p posX posY)
              = 1 - posY / real (canvas_height cv) - texcoordY p)"
  using assms
  by (simp add: updatePointerMoveData_deltas correctDeltaX_def correctDeltaY_def
      aspectRatio_def)

theorem updatePointerMoveData_aspect_correction_witness:
  "deltaX (updatePointerMoveData wide_canvas
      (updatePointerDownData wide_canvas fresh_pointer (- 1) 0 0) 20 10) = 1 / 10 \<and>
   deltaY (updatePointerMoveData wide_canvas
      (updatePointerDownData wide_canvas fresh_pointer (- 1) 0 0) 20 10) = - 1 / 20"
  using updatePointerMoveData_aspect_correction
    [of wide_canvas "updatePointerDownData wide_canvas fresh_pointer (- 1) 0 0" 20 10]
  by (simp add: wide_canvas_def updatePointerDownData_def fresh_pointer_def aspectRatio_def
      Let_def)

text \<open>
  C5, counterexample. The canvas is 200 x 100 (aspect ratio 2, wider than tall), the
  pointer goes from pixel (0, 0) to pixel (20, 10): the raw delta is (0.1, -0.1). The
  claim scales the horizontal delta by the aspect ratio (0.2) and leaves the vertical
  one; the code leaves the horizontal delta (0.1) and halves the vertical one (-0.05).
\<close>

theorem updatePointerMoveData_aspect_counterexample:
  "aspectRatio wide_canvas = 2 \<and>
   deltaX (updatePointerMoveData wide_canvas
      (updatePointerDownData wide_canvas fresh_pointer (- 1) 0 0) 20 10)
     \<noteq> (1 / 10) * aspectRatio wide_canvas \<and>
   deltaY (updatePointerMoveData wide_canvas
      (updatePointerDownData wide_canvas fresh_pointer (- 1) 0 0) 20 10)
     \<noteq> - 1 / 10"
  by (simp add: updatePointerMoveData_deltas correctDeltaX_def correctDeltaY_def
      wide_canvas_def updatePointerDownData_def fresh_pointer_def aspectRatio_def Let_def)

text \<open>
  C4 (as the code has it). On a canvas with pixels on both sides, a pointer move sets
  \<open>moved\<close> exactly when the absolute value of one of the two aspect-corrected deltas
  exceeds 1e-5, each compared on its own. A pointer whose new position equals its
  previous one gets \<open>moved = false\<close>, and \<open>applyInputs\<close> then emits no splat for it and
  leaves it unchanged.
\<close>

theorem updatePointerMoveData_moved:
  assumes "0 < canvas_width cv" and "0 < canvas_height cv"
  shows "moved (updatePointerMoveData cv p posX posY) =
           (\<bar>correctDeltaX cv (posX / real (canvas_width cv) - texcoordX p)\<bar> > 1 / 100000 \<or>
            \<bar>correctDeltaY cv (1 - posY / real (canvas_height cv) - texcoordY p)\<bar> > 1 / 100000) \<and>
         (posX / real (canvas_width cv) = texcoordX p \<and>
          1 - posY / real (canvas_height cv) = texcoordY p \<longrightarrow>
            \<not> moved (updatePointerMoveData cv p posX posY) \<and>
            applyInputs cfg \<lparr> pointers = [updatePointerMoveData cv p posX posY],
                              splatStack = [], emitted = [] \<rparr>
              = \<lparr> pointers = [updatePointerMoveData cv p posX posY],
                  splatStack = [], emitted = [] \<rparr>)"
proof -
  let ?q = "updatePointerMoveData cv p posX posY"
  have m: "moved ?q =
           (\<bar>correctDeltaX cv (posX / real (canvas_width cv) - texcoordX p)\<bar> > 1 / 100000 \<or>
            \<bar>correctDeltaY cv (1 - posY / real (canvas_height cv) - texcoordY p)\<bar> > 1 / 100000)"
    using updatePointerMoveData_deltas [of cv p posX posY] by simp
  have still: "\<not> moved ?q"
    if "posX / real (canvas_width cv) = texcoordX p"
      and "1 - posY / real (canvas_height cv) = texcoordY p"
    using that m by (simp add: correctDeltaX_def correctDeltaY_def)
  have quiet: "applyInputs cfg \<lparr> pointers = [q], splatStack = [], emitted = [] \<rparr>
                 = \<lparr> pointers = [q], splatStack = [], emitted = [] \<rparr>"
    if "\<not> moved q" for q :: IPointer
    using that by (simp add: applyInputs_def applyPointer_def Let_def)
  show ?thesis using m still quiet by blast
qed

theorem updatePointerMoveData_moved_witness:
  "\<not> moved (updatePointerMoveData wide_canvas
      (updatePointerDownData wide_canvas fresh_pointer (- 1) 20 10) 20 10) \<and>
   emitted (applyInputs config
      \<lparr> pointers = [updatePointerMoveData wide_canvas
          (updatePointerDownData wide_canvas fresh_pointer (- 1) 20 10) 20 10],
        splatStack = [], emitted = [] \<rparr>) = []"
proof -
  let ?p0 = "updatePointerDownData wide_canvas fresh_pointer (- 1) 20 10"
  have w: "0 < canvas_width wide_canvas" and h: "0 < canvas_height wide_canvas"
    by (simp_all add: wide_canvas_def)
  have same: "20 / real (canvas_width wide_canvas) = texcoordX ?p0 \<and>
              1 - 10 / real (canvas_height wide_canvas) = texcoordY ?p0"
    by (simp add: wide_canvas_def updatePointerDownData_def Let_def)
  from updatePointerMoveData_moved [OF w h, where p = ?p0 and posX = 20 and posY = 10
      and cfg = config] same
  have "\<not> moved (updatePointerMoveData wide_canvas ?p0 20 10) \<and>
        applyInputs config \<lparr> pointers = [updatePointerMoveData wide_canvas ?p0 20 10],
                              splatStack = [], emitted = [] \<rparr>
          = \<lparr> pointers = [updatePointerMoveData wide_canvas ?p0 20 10],
              splatStack = [], emitted = [] \<rparr>"
    by blast
  then show ?thesis by simp
qed

text \<open>
  C4, counterexample. On a square canvas of 150000 pixels a side the pointer goes from
  pixel (0, 0) to pixel (1, 1): both deltas have absolute value 1/150000, below 1e-5,
  so the code leaves \<open>moved\<close> false, while their sum 2/150000 exceeds 1e-5.
\<close>

theorem updatePointerMoveData_moved_counterexample:
  "\<bar>deltaX (updatePointerMoveData huge_canvas
       (updatePointerDownData huge_canvas fresh_pointer (- 1) 0 0) 1 1)\<bar>
   + \<bar>deltaY (updatePointerMoveData huge_canvas
       (updatePointerDownData huge_canvas fresh_pointer (- 1) 0 0) 1 1)\<bar> > 1 / 100000 \<and>
   \<not> moved (updatePointerMoveData huge_canvas
       (updatePointerDownData huge_canvas fresh_pointer (- 1) 0 0) 1 1)"
  by (simp add: updatePointerMoveData_def correctDeltaX_def correctDeltaY_def
      huge_canvas_def updatePointerDownData_def fresh_pointer_def aspectRatio_def Let_def)

lemma pixel_step_large:
  fixes a :: int and m :: real
  assumes "0 < m" "m < 100000"
  shows "(\<bar>real_of_int a / m\<bar> > 1 / 100000) = (a \<noteq> 0)"
proof (cases "a = 0")
  case True
  then show ?thesis by simp
next
  case False
  then have "1 \<le> \<bar>real_of_int a\<bar>" by linarith
  with assms(2) have "m < \<bar>real_of_int a\<bar> * 100000" by linarith
  then have "1 / 100000 < \<bar>real_of_int a\<bar> / m"
    using assms(1) by (simp add: field_simps)
  then have "1 / 100000 < \<bar>real_of_int a / m\<bar>"
    using assms(1) by simp
  with False show ?thesis by simp
qed

text \<open>
  The event handlers pass pixel positions rounded down to integers. On a canvas whose
  sides are below 100000 pixels every such move of at least one pixel exceeds 1e-5 in
  its own component, so there the flag, and the sum of the two absolute deltas compared
  with 1e-5, both say that the pointer left its pixel.
\<close>

lemma moved_on_pixel_grid:
  assumes "0 < canvas_width cv" "canvas_width cv < 100000"
    and "0 < canvas_height cv" "canvas_height cv < 100000"
    and "texcoordX p = real_of_int x0 / real (canvas_width cv)"
    and "texcoordY p = 1 - real_of_int y0 / real (canvas_height cv)"
  shows "moved (updatePointerMoveData cv p (real_of_int x1) (real_of_int y1))
           = (x1 \<noteq> x0 \<or> y1 \<noteq> y0)"
    and "(\<bar>deltaX (updatePointerMoveData cv p (real_of_int x1) (real_of_int y1))\<bar>
          + \<bar>deltaY (updatePointerMoveData cv p (real_of_int x1) (real_of_int y1))\<bar>
            > 1 / 100000) = (x1 \<noteq> x0 \<or> y1 \<noteq> y0)"
proof -
  let ?q = "updatePointerMoveData cv p (real_of_int x1) (real_of_int y1)"
  let ?W = "real (canvas_width cv)" and ?H = "real (canvas_height cv)"
  have W: "0 < ?W" "?W < 100000" and H: "0 < ?H" "?H < 100000"
    using assms(1-4) by simp_all
  have rawx: "real_of_int x1 / ?W - texcoordX p = real_of_int (x1 - x0) / ?W"
    unfolding assms(5) by (simp add: diff_divide_distrib)
  have rawy: "1 - real_of_int y1 / ?H - texcoordY p = real_of_int (y0 - y1) / ?H"
    unfolding assms(6) by (simp add: diff_divide_distrib)
  have sx: "a / ?W * (?W / ?H) = a / ?H" for a :: real
    using W by simp
  have sy: "a / ?H / (?W / ?H) = a / ?W" for a :: real
    using H by simp
  have dx: "deltaX ?q = real_of_int (x1 - x0) / (if ?W / ?H < 1 then ?H else ?W)"
    unfolding updatePointerMoveData_deltas [THEN conjunct1] rawx correctDeltaX_def
      aspectRatio_def
    by (simp only: sx if_distrib [of "\<lambda>m. real_of_int (x1 - x0) / m"] split: if_splits)
  have dy: "deltaY ?q = real_of_int (y0 - y1) / (if ?W / ?H > 1 then ?W else ?H)"
    unfolding updatePointerMoveData_deltas [THEN conjunct2, THEN conjunct1] rawy
      correctDeltaY_def aspectRatio_def
    by (simp only: sy if_distrib [of "\<lambda>m. real_of_int (y0 - y1) / m"] split: if_splits)
  have mx: "0 < (if ?W / ?H < 1 then ?H else ?W)" "(if ?W / ?H < 1 then ?H else ?W) < 100000"
    and my: "0 < (if ?W / ?H > 1 then ?W else ?H)" "(if ?W / ?H > 1 then ?W else ?H) < 100000"
    using W H by simp_all
  have X: "(\<bar>deltaX ?q\<bar> > 1 / 100000) = (x1 \<noteq> x0)"
    unfolding dx using pixel_step_large [OF mx, of "x1 - x0"] by simp
  have Y: "(\<bar>deltaY ?q\<bar> > 1 / 100000) = (y1 \<noteq> y0)"
    unfolding dy using pixel_step_large [OF my, of "y0 - y1"] by auto
  show "moved ?q = (x1 \<noteq> x0 \<or> y1 \<noteq> y0)"
    using X Y updatePointerMoveData_deltas [of cv p "real_of_int x1" "real_of_int y1"] by simp
  have zero: "deltaX ?q = 0" if "x1 = x0" using that dx by simp
  have zero': "deltaY ?q = 0" if "y1 = y0" using that dy by simp
  show "(\<bar>deltaX ?q\<bar> + \<bar>deltaY ?q\<bar> > 1 / 100000) = (x1 \<noteq> x0 \<or> y1 \<noteq> y0)"
  proof (cases "x1 = x0")
    case True
    with zero Y show ?thesis by simp
  next
    case False
    with X have "\<bar>deltaX ?q\<bar> > 1 / 100000" by simp
    moreover have "0 \<le> \<bar>deltaY ?q\<bar>" by simp
    ultimately have "\<bar>deltaX ?q\<bar> + \<bar>deltaY ?q\<bar> > 1 / 100000" by linarith
    with False show ?thesis by simp
  qed
qed

subsection \<open>Applying inputs\<close>

text \<open>
  C9. After \<open>applyInputs\<close> every pointer of the registry has \<open>moved = false\<close> (and is
  otherwise as it entered), and the splats that the call issued through \<open>splatPointer\<close>
  are, in registry order, those of exactly the pointers that entered with \<open>down\<close> and
  \<open>moved\<close> both set; the only other thing emitted is the random burst popped from a
  non-empty splat stack.
\<close>

theorem applyInputs_clears_moved:
  "(\<forall>p \<in> set (pointers (applyInputs cfg st)). \<not> moved p) \<and>
   pointers (applyInputs cfg st) = map (\<lambda>p. p \<lparr> moved := False \<rparr>) (pointers st) \<and>
   emitted (applyInputs cfg st) =
     emitted st
     @ (if splatStack st = [] then [] else [RandomBurst (last (splatStack st))])
     @ map (splatPointer cfg) (filter (\<lambda>p. moved p \<and> down p) (pointers st))"
  using applyInputs_result [of cfg st] by simp

theorem applyInputs_clears_moved_witness:
  "map moved (pointers (applyInputs config
       \<lparr> pointers = [fresh_pointer \<lparr> down := True, moved := True, deltaX := 1 / 10 \<rparr>,
                      fresh_pointer \<lparr> moved := True \<rparr>,
                      fresh_pointer \<lparr> down := True \<rparr>],
         splatStack = [7, 9], emitted = [] \<rparr>)) = [False, False, False] \<and>
   emitted (applyInputs config
       \<lparr> pointers = [fresh_pointer \<lparr> down := True, moved := True, deltaX := 1 / 10 \<rparr>,
                      fresh_pointer \<lparr> moved := True \<rparr>,
                      fresh_pointer \<lparr> down := True \<rparr>],
         splatStack = [7, 9], emitted = [] \<rparr>)
     = [RandomBurst 9, PointerSplat 0 0 600 0 (1 / 10, 1 / 10, 1 / 10)]"
  using applyInputs_clears_moved [of config
       "\<lparr> pointers = [fresh_pointer \<lparr> down := True, moved := True, deltaX := 1 / 10 \<rparr>,
                      fresh_pointer \<lparr> moved := True \<rparr>,
                      fresh_pointer \<lparr> down := True \<rparr>],
         splatStack = [7, 9], emitted = [] \<rparr>"]
  by (simp add: fresh_pointer_def splatPointer_def config_def)

subsection \<open>Splats\<close>

text \<open>
  C8 (as the code has it). The splat shader does not use its \<open>aspectRatio\<close> uniform: with
  \<open>p = vUv - point\<close> it adds \<open>color * exp(-(p.x^2 + p.y^2) / max(radius^2, 1e-6))\<close> to the
  target sample and writes alpha 1, whatever the uniform holds. The aspect ratio enters
  only through the radius uniform, which \<open>splat\<close> sets to \<open>SPLAT_RADIUS / 100\<close>, multiplied
  by the aspect ratio when that exceeds 1, times the radius multiplier of the call.
\<close>

theorem splatShader_contribution:
  "splatShader uTarget a col point radius v =
     (add3 (uTarget (vUv v))
        (scale3 (exp (- ((fst (vUv v) - fst point)\<^sup>2 + (snd (vUv v) - snd point)\<^sup>2)
                       / max (radius\<^sup>2) (1 / 1000000))) col), 1) \<and>
   splatShader uTarget a col point radius v = splatShader uTarget a' col point radius v \<and>
   splat (Some cv) True cfg x y m =
     Some \<lparr> u_aspectRatio = aspectRatio cv, u_point = (x, y),
            u_radius = (if aspectRatio cv > 1 then SPLAT_RADIUS cfg / 100 * aspectRatio cv
                        else SPLAT_RADIUS cfg / 100) * m \<rparr>"
proof -
  have shader: "splatShader uTarget b col point radius v =
     (add3 (uTarget (vUv v))
        (scale3 (exp (- ((fst (vUv v) - fst point)\<^sup>2 + (snd (vUv v) - snd point)\<^sup>2)
                       / max (radius\<^sup>2) (1 / 1000000))) col), 1)" for b
    unfolding splatShader_def Let_def dot2_def sub2_def power2_eq_square fst_conv snd_conv
    by (rule refl)
  have host: "splat (Some cv) True cfg x y m =
     Some \<lparr> u_aspectRatio = aspectRatio cv, u_point = (x, y),
            u_radius = (if aspectRatio cv > 1 then SPLAT_RADIUS cfg / 100 * aspectRatio cv
                        else SPLAT_RADIUS cfg / 100) * m \<rparr>"
    by (simp add: splat_def correctRadius_def Let_def)
  show ?thesis using shader [of a] shader [of a'] host by simp
qed

text \<open>
  C8, counterexample. Aspect ratio 2, splat centre (0.5, 0.5), radius 0.1, colour
  (1, 0, 0) on a black target, fragment at (0.6, 0.5): the shader adds \<open>exp(-1)\<close>, the
  claimed formula with the x-offset scaled by the aspect ratio gives \<open>exp(-4)\<close>.
\<close>

theorem splatShader_aspect_counterexample:
  "splatShader (\<lambda>uv. (0, 0, 0)) 2 (1, 0, 0) (1 / 2, 1 / 2) (1 / 10)
      (baseVertexShader (1 / 256, 1 / 128) (6 / 10, 1 / 2)) = ((exp (- 1), 0, 0), 1) \<and>
   exp (- 1) \<noteq> exp (- ((2 * (6 / 10 - 1 / 2))\<^sup>2 + (1 / 2 - 1 / 2)\<^sup>2) / (1 / 10)\<^sup>2 :: real)"
  by (simp add: splatShader_def Let_def dot2_def sub2_def power2_eq_square baseVertexShader_def)

subsection \<open>Bloom pre-filter\<close>

text \<open>
  C6 (as the code has it). With \<open>knee = BLOOM_THRESHOLD * BLOOM_SOFT_KNEE + 1e-5\<close> and
  \<open>curve = (threshold - knee, 2 * knee, 0.25 / knee)\<close>, the pre-filter takes the
  brightness \<open>br = max(r, g, b)\<close> of the input texel, computes
  \<open>rq = curve.z * clamp(br - curve.x, 0, curve.y)^2\<close>, and scales the colour by
  \<open>max(rq, step(threshold, br)) / max(br, 0.0001)\<close>, where \<open>step(threshold, br)\<close> is 0 for
  \<open>br < threshold\<close> and 1 otherwise; alpha is 1.
\<close>

theorem applyBloom_prefilter_scale:
  "applyBloom_prefilter cfg source v =
     (let c = source (vUv v);
          br = max_rgb c;
          knee = BLOOM_THRESHOLD cfg * BLOOM_SOFT_KNEE cfg + 1 / 100000;
          rq = (25 / 100) / knee
                 * (glsl_clamp (br - (BLOOM_THRESHOLD cfg - knee)) 0 (2 * knee))\<^sup>2
      in (scale3 (max rq (if br < BLOOM_THRESHOLD cfg then 0 else 1) / max br (1 / 10000)) c, 1))"
  by (simp add: applyBloom_prefilter_def bloomPrefilterShader_def Let_def glsl_step_def
      power2_eq_square mult.commute mult.assoc)

text \<open>
  C6, counterexample. Default configuration (threshold 0.6, knee 0.42001), input texel
  (1, 0, 0), so \<open>br = 1\<close>: the code scales by \<open>max(rq, 1) / 1 = 1\<close> and writes (1, 0, 0);
  the claimed factor \<open>max(rq, br - threshold) / max(br, epsilon)\<close> is not 1.
\<close>

theorem applyBloom_prefilter_counterexample:
  "applyBloom_prefilter config (\<lambda>uv. (1, 0, 0)) (baseVertexShader (1 / 256, 1 / 256) (1 / 2, 1 / 2))
     = ((1, 0, 0), 1) \<and>
   max ((25 / 100) / (6 / 10 * (7 / 10) + 1 / 100000)
          * (glsl_clamp (1 - (6 / 10 - (6 / 10 * (7 / 10) + 1 / 100000))) 0
               (2 * (6 / 10 * (7 / 10) + 1 / 100000)))\<^sup>2)
       (1 - 6 / 10) / max 1 (1 / 10000) \<noteq> (1 :: real)"
  by (simp add: applyBloom_prefilter_def bloomPrefilterShader_def Let_def glsl_step_def
      glsl_clamp_def config_def baseVertexShader_def power2_eq_square)

subsection \<open>Display and clamping\<close>

lemma glsl_clamp_unit: "0 \<le> glsl_clamp x 0 1 \<and> glsl_clamp x 0 1 \<le> 1"
  by (simp add: glsl_clamp_def)








lemma drawDisplay_canvas:
  "drawDisplay None cfg sh bl su u v dst =
     fixed_point (blend_SRC_ALPHA (fixed_point (displayShader sh bl su u v)) dst)"
  by (simp add: drawDisplay_def write_fragment_def Let_def)













text \<open>
  An example with all three keywords (the default configuration): the dye is (2, 0, 0)
  everywhere, there is no bloom, sunrays are 1 and the dithering sample is 0.5. The
  shader writes (2, 0, 0) with alpha 1; the canvas, over a black background, stores
  (1, 0, 0) with alpha 1.
\<close>

lemma drawDisplay_bright_dye:
  "displayShader True True True
     \<lparr> uTexture = (\<lambda>uv. (2, 0, 0)), uBloom = (\<lambda>uv. (0, 0, 0)), uSunrays = (\<lambda>uv. 1),
       uDithering = (\<lambda>uv. 1 / 2), ditherScale = (1, 1), texelSize = (1 / 640, 1 / 480) \<rparr>
     (baseVertexShader (1 / 640, 1 / 480) (1 / 2, 1 / 2)) = ((2, 0, 0), 1) \<and>
   drawDisplay None config True True True
     \<lparr> uTexture = (\<lambda>uv. (2, 0, 0)), uBloom = (\<lambda>uv. (0, 0, 0)), uSunrays = (\<lambda>uv. 1),
       uDithering = (\<lambda>uv. 1 / 2), ditherScale = (1, 1), texelSize = (1 / 640, 1 / 480) \<rparr>
     (baseVertexShader (1 / 640, 1 / 480) (1 / 2, 1 / 2)) ((0, 0, 0), 1) = ((1, 0, 0), 1)"
proof -
  have n: "normalize3 (0, 0, z) = (0, 0, 1)" if "0 < z" for z
    using that by (simp add: normalize3_def length3_def power2_eq_square [symmetric])
  have z: "0 < max (length2 (1 / 640, 1 / 480) * 2) (1 / 10000)" by simp
  have sh: "displayShader True True True
     \<lparr> uTexture = (\<lambda>uv. (2, 0, 0)), uBloom = (\<lambda>uv. (0, 0, 0)), uSunrays = (\<lambda>uv. 1),
       uDithering = (\<lambda>uv. 1 / 2), ditherScale = (1, 1), texelSize = (1 / 640, 1 / 480) \<rparr>
     (baseVertexShader (1 / 640, 1 / 480) (1 / 2, 1 / 2)) = ((2, 0, 0), 1)"
    by (simp add: displayShader_def Let_def baseVertexShader_def glsl_clamp_def n [OF z]
        linearToGamma_def n del: max_less_iff_conj)
  show ?thesis
    unfolding drawDisplay_canvas sh
    by (simp add: fixed_point_def blend_SRC_ALPHA_def glsl_clamp_def)
qed

text \<open>
  \<open>render\<close> also takes a framebuffer as target. With \<open>TRANSPARENT\<close> set it then draws
  without blending into a floating-point texture, which stores the fragment as the
  shader wrote it.
\<close>

lemma drawDisplay_float_target:
  "TRANSPARENT cfg \<Longrightarrow> drawDisplay (Some t) cfg sh bl su u v dst = displayShader sh bl su u v"
  by (simp add: drawDisplay_def write_fragment_def Let_def)

subsection \<open>Pressure pass\<close>

lemma pressure_solve_funpow:
  "pressure_solve i n ts dv p = ((pressure_iteration ts dv) ^^ nat (n - i)) p"
proof (induction i n ts dv p rule: pressure_solve.induct)
  case (1 i n ts dv p)
  show ?case
  proof (cases "i < n")
    case True
    then have "nat (n - i) = Suc (nat (n - (i + 1)))" by simp
    with True 1 show ?thesis
      by (subst pressure_solve.simps) (simp add: funpow_swap1)
  next
    case False
    then show ?thesis by (subst pressure_solve.simps) simp
  qed
qed

lemmas pass_defs = curl_pass_def vorticity_pass_def divergence_pass_def pressure_pass_def
  gradient_subtract_pass_def advect_velocity_pass_def advect_dye_pass_def

lemma step_passes_pressure:
  "pressure (step_passes cfg lin dt s) =
     pressure_solve 0 (PRESSURE_ITERATIONS cfg) (d_texelSizeX (velocity s), d_texelSizeY (velocity s))
       (divergence (step_passes cfg lin dt s)) (pressure_fade cfg (pressure s))"
  by (simp add: step_passes_def pass_defs Let_def blit_swap_def swap_fbo_def)

lemma clamp_to_edge_inside: "0 \<le> i \<Longrightarrow> i < n \<Longrightarrow> clamp_to_edge n i = i"
  by (simp add: clamp_to_edge_def)

lemma texture2D_nearest:
  assumes "\<not> linear_filter t" "0 < fbo_width t" "0 < fbo_height t"
  shows "texture2D mixf t (x / real_of_int (fbo_width t), y / real_of_int (fbo_height t))
           = texel t \<lfloor>x\<rfloor> \<lfloor>y\<rfloor>"
  using assms by (simp add: texture2D_def Let_def)

lemma floor_half: "\<lfloor>real_of_int i + 1 / 2\<rfloor> = i" "\<lfloor>real_of_int i - 1 / 2\<rfloor> = i - 1"
  "\<lfloor>real_of_int i + 3 / 2\<rfloor> = i + 1"
  by linarith+


lemma varyings_at_texel:
  assumes "0 < w" "0 < h"
  shows "baseVertexShader (1 / real_of_int w, 1 / real_of_int h) (fragment_uv w h i j) =
           \<lparr> vUv = ((real_of_int i + 1 / 2) / real_of_int w, (real_of_int j + 1 / 2) / real_of_int h),
             vL = ((real_of_int i - 1 / 2) / real_of_int w, (real_of_int j + 1 / 2) / real_of_int h),
             vR = ((real_of_int i + 3 / 2) / real_of_int w, (real_of_int j + 1 / 2) / real_of_int h),
             vT = ((real_of_int i + 1 / 2) / real_of_int w, (real_of_int j + 3 / 2) / real_of_int h),
             vB = ((real_of_int i + 1 / 2) / real_of_int w, (real_of_int j - 1 / 2) / real_of_int h) \<rparr>"
  using assms
  by (simp add: baseVertexShader_def fragment_uv_def add2_def sub2_def diff_divide_distrib
      add_divide_distrib)

lemma nearest_at:
  assumes "\<not> linear_filter t" "fbo_width t = w" "fbo_height t = h" "0 < w" "0 < h"
  shows "texture2D mixf t (x / real_of_int w, y / real_of_int h) = texel t \<lfloor>x\<rfloor> \<lfloor>y\<rfloor>"
  using assms texture2D_nearest [of t mixf x y] by simp

lemma texel_inside:
  "0 \<le> i \<Longrightarrow> i < fbo_width t \<Longrightarrow> 0 \<le> j \<Longrightarrow> j < fbo_height t \<Longrightarrow> texel t i j = texels t i j"
  by (simp add: texel_def clamp_to_edge_inside)

lemma pressure_fade_texel:
  assumes "pressure_grid p w h" "0 < w" "0 < h"
  shows "texels (read_fbo (pressure_fade cfg p)) i j = texel (read_fbo p) i j * PRESSURE cfg"
proof -
  have t: "\<not> linear_filter (fbo1 p)" "fbo_width (fbo1 p) = w" "fbo_height (fbo1 p) = h"
    and t2: "fbo_width (fbo2 p) = w" "fbo_height (fbo2 p) = h"
    using assms(1) by (simp_all add: pressure_grid_def)
  have "texels (read_fbo (pressure_fade cfg p)) i j =
          texture2D mix (fbo1 p)
            ((real_of_int i + 1 / 2) / real_of_int w, (real_of_int j + 1 / 2) / real_of_int h)
          * PRESSURE cfg"
    by (simp add: pressure_fade_def blit_swap_def swap_fbo_def read_fbo_def write_fbo_def
        blit_def clearShader_def baseVertexShader_def fragment_uv_def t2)
  also have "\<dots> = texel (fbo1 p) i j * PRESSURE cfg"
    by (simp only: nearest_at [OF t assms(2,3)] floor_half)
  finally show ?thesis by (simp add: read_fbo_def)
qed

lemma pressure_iteration_texel:
  assumes "pressure_grid p w h" "0 < w" "0 < h"
    and "\<not> linear_filter dv" "fbo_width dv = w" "fbo_height dv = h"
  shows "texels (read_fbo (pressure_iteration (1 / real_of_int w, 1 / real_of_int h) dv p)) i j
           = jacobi_guarded w h (read_fbo p) dv i j"
proof -
  have t: "\<not> linear_filter (fbo1 p)" "fbo_width (fbo1 p) = w" "fbo_height (fbo1 p) = h"
    and t2: "fbo_width (fbo2 p) = w" "fbo_height (fbo2 p) = h"
    using assms(1) by (simp_all add: pressure_grid_def)
  note P = nearest_at [OF t assms(2,3)]
  note D = nearest_at [OF assms(4,5,6) assms(2,3)]
  have "texels (read_fbo (pressure_iteration (1 / real_of_int w, 1 / real_of_int h) dv p)) i j =
          pressureShader (texture2D mix (fbo1 p)) (texture2D mix dv)
            (baseVertexShader (1 / real_of_int w, 1 / real_of_int h) (fragment_uv w h i j))"
    by (simp add: pressure_iteration_def blit_swap_def swap_fbo_def read_fbo_def write_fbo_def
        blit_def t2)
  also have "\<dots> = jacobi_guarded w h (fbo1 p) dv i j"
    unfolding varyings_at_texel [OF assms(2,3)] pressureShader_def jacobi_guarded_def
    by (simp add: Let_def P D floor_half)
  finally show ?thesis by (simp add: read_fbo_def)
qed

lemma edge_free_inside:
  assumes "edge_free w h x y" "0 < w" "0 < h"
  shows "1 \<le> x \<and> x + 1 < w \<and> 1 \<le> y \<and> y + 1 < h"
proof -
  have a: "real_of_int w / 100 \<le> real_of_int x - 1 / 2" "real_of_int x + 3 / 2 \<le> real_of_int w * (99 / 100)"
    "real_of_int h / 100 \<le> real_of_int y - 1 / 2" "real_of_int y + 3 / 2 \<le> real_of_int h * (99 / 100)"
    using assms by (simp_all add: edge_free_def field_simps)
  have "0 < real_of_int w" "0 < real_of_int h" using assms by simp_all
  with a have "1 / 2 < real_of_int x" "real_of_int x + 3 / 2 < real_of_int w"
     "1 / 2 < real_of_int y" "real_of_int y + 3 / 2 < real_of_int h" by linarith+
  then show ?thesis by linarith
qed

lemma jacobi_guarded_interior:
  assumes "edge_free w h x y" "0 < w" "0 < h"
    and "fbo_width p = w" "fbo_height p = h" "fbo_width dv = w" "fbo_height dv = h"
  shows "jacobi_guarded w h p dv x y = jacobi_formula (texels p) (texels dv) x y"
proof -
  from edge_free_inside [OF assms(1-3)]
  have "texel p (x - 1) y = texels p (x - 1) y" "texel p (x + 1) y = texels p (x + 1) y"
    "texel p x (y - 1) = texels p x (y - 1)" "texel p x (y + 1) = texels p x (y + 1)"
    "texel dv x y = texels dv x y"
    using assms(4-7) by (simp_all add: texel_inside)
  then show ?thesis
    using assms(1) by (simp add: jacobi_guarded_def jacobi_formula_def edge_free_def Let_def)
qed

lemma pressure_iteration_grid:
  "pressure_grid p w h \<Longrightarrow> pressure_grid (pressure_iteration ts dv p) w h"
  by (simp add: pressure_grid_def pressure_iteration_def blit_swap_def swap_fbo_def
      write_fbo_def blit_def)

lemma pressure_fade_grid:
  "pressure_grid p w h \<Longrightarrow> pressure_grid (pressure_fade cfg p) w h"
  by (simp add: pressure_grid_def pressure_fade_def blit_swap_def swap_fbo_def
      write_fbo_def blit_def)

lemma pressure_iteration_write:
  "write_fbo (pressure_iteration ts dv p) = read_fbo p"
  "write_fbo (pressure_fade cfg p) = read_fbo p"
  by (simp_all add: pressure_iteration_def pressure_fade_def blit_swap_def swap_fbo_def
      write_fbo_def read_fbo_def)


lemma step_passes_divergence_shape:
  "fbo_width (divergence (step_passes cfg lin dt s)) = fbo_width (divergence s) \<and>
   fbo_height (divergence (step_passes cfg lin dt s)) = fbo_height (divergence s) \<and>
   linear_filter (divergence (step_passes cfg lin dt s)) = linear_filter (divergence s)"
  by (simp add: step_passes_def pass_defs Let_def blit_def)

text \<open>
  C1 (as the code has it). On a simulation grid of \<open>w\<close> by \<open>h\<close> texels, the pressure that
  \<open>step\<close> leaves is the faded pressure after exactly \<open>PRESSURE_ITERATIONS\<close> Jacobi
  iterations against the divergence of this step. The fade writes
  \<open>pressure.read * PRESSURE\<close> and swaps; each iteration writes, from the pressure of the
  previous iteration, \<open>(L + R + B + T - div) / 4\<close> and swaps, where a neighbour sample
  whose coordinate is within 0.01 of the edge it faces is replaced by the opposite one;
  at the texels where no such guard fires this is the four-neighbour formula.
\<close>

theorem step_pressure_pass:
  assumes "sim_grid s w h"
  shows "pressure (step_passes cfg lin dt s) =
           ((pressure_iteration (1 / real_of_int w, 1 / real_of_int h)
               (divergence (step_passes cfg lin dt s))) ^^ nat (PRESSURE_ITERATIONS cfg))
             (pressure_fade cfg (pressure s)) \<and>
         write_fbo (pressure_fade cfg (pressure s)) = read_fbo (pressure s) \<and>
         pressure_grid (pressure_fade cfg (pressure s)) w h \<and>
         (\<forall>x y. texels (read_fbo (pressure_fade cfg (pressure s))) x y
                  = texel (read_fbo (pressure s)) x y * PRESSURE cfg) \<and>
         (\<forall>p. pressure_grid p w h \<longrightarrow>
            write_fbo (pressure_iteration (1 / real_of_int w, 1 / real_of_int h)
                         (divergence (step_passes cfg lin dt s)) p) = read_fbo p \<and>
            pressure_grid (pressure_iteration (1 / real_of_int w, 1 / real_of_int h)
                             (divergence (step_passes cfg lin dt s)) p) w h \<and>
            (\<forall>x y. texels (read_fbo (pressure_iteration (1 / real_of_int w, 1 / real_of_int h)
                                       (divergence (step_passes cfg lin dt s)) p)) x y
                     = jacobi_guarded w h (read_fbo p) (divergence (step_passes cfg lin dt s)) x y) \<and>
            (\<forall>x y. edge_free w h x y \<longrightarrow>
                texels (read_fbo (pressure_iteration (1 / real_of_int w, 1 / real_of_int h)
                                    (divergence (step_passes cfg lin dt s)) p)) x y
                  = jacobi_formula (texels (read_fbo p))
                      (texels (divergence (step_passes cfg lin dt s))) x y))"
proof -
  let ?ts = "(1 / real_of_int w, 1 / real_of_int h)"
  let ?dv = "divergence (step_passes cfg lin dt s)"
  have w: "0 < w" and h: "0 < h" using assms by (simp_all add: sim_grid_def)
  have ts: "(d_texelSizeX (velocity s), d_texelSizeY (velocity s)) = ?ts"
    using assms by (simp add: sim_grid_def)
  have pg: "pressure_grid (pressure s) w h"
    using assms by (simp add: sim_grid_def pressure_grid_def)
  have dv: "\<not> linear_filter ?dv" "fbo_width ?dv = w" "fbo_height ?dv = h"
    using assms step_passes_divergence_shape [of cfg lin dt s] by (simp_all add: sim_grid_def)
  have loop: "pressure (step_passes cfg lin dt s) =
           ((pressure_iteration ?ts ?dv) ^^ nat (PRESSURE_ITERATIONS cfg))
             (pressure_fade cfg (pressure s))"
    using step_passes_pressure [of cfg lin dt s] ts by (simp add: pressure_solve_funpow)
  have fade: "\<forall>x y. texels (read_fbo (pressure_fade cfg (pressure s))) x y
                  = texel (read_fbo (pressure s)) x y * PRESSURE cfg"
    using pressure_fade_texel [OF pg w h] by simp
  have iter: "write_fbo (pressure_iteration ?ts ?dv p) = read_fbo p \<and>
      pressure_grid (pressure_iteration ?ts ?dv p) w h \<and>
      (\<forall>x y. texels (read_fbo (pressure_iteration ?ts ?dv p)) x y
                 = jacobi_guarded w h (read_fbo p) ?dv x y) \<and>
      (\<forall>x y. edge_free w h x y \<longrightarrow>
                texels (read_fbo (pressure_iteration ?ts ?dv p)) x y
                  = jacobi_formula (texels (read_fbo p)) (texels ?dv) x y)"
    if p: "pressure_grid p w h" for p
  proof -
    have shape: "fbo_width (read_fbo p) = w" "fbo_height (read_fbo p) = h"
      using p by (simp_all add: pressure_grid_def read_fbo_def)
    have g: "texels (read_fbo (pressure_iteration ?ts ?dv p)) x y
               = jacobi_guarded w h (read_fbo p) ?dv x y" for x y
      by (rule pressure_iteration_texel [OF p w h dv])
    have f: "texels (read_fbo (pressure_iteration ?ts ?dv p)) x y
               = jacobi_formula (texels (read_fbo p)) (texels ?dv) x y"
      if "edge_free w h x y" for x y
      using g [of x y] jacobi_guarded_interior [OF that w h shape dv(2,3)] by simp
    have g': "\<forall>x y. texels (read_fbo (pressure_iteration ?ts ?dv p)) x y
                 = jacobi_guarded w h (read_fbo p) ?dv x y"
      using g by blast
    have f': "\<forall>x y. edge_free w h x y \<longrightarrow>
                texels (read_fbo (pressure_iteration ?ts ?dv p)) x y
                  = jacobi_formula (texels (read_fbo p)) (texels ?dv) x y"
      using f by blast
    show ?thesis
      by (intro conjI g' f' pressure_iteration_write(1) pressure_iteration_grid [OF p])
  qed
  then have all_iter: "\<forall>p. pressure_grid p w h \<longrightarrow>
      write_fbo (pressure_iteration ?ts ?dv p) = read_fbo p \<and>
      pressure_grid (pressure_iteration ?ts ?dv p) w h \<and>
      (\<forall>x y. texels (read_fbo (pressure_iteration ?ts ?dv p)) x y
                 = jacobi_guarded w h (read_fbo p) ?dv x y) \<and>
      (\<forall>x y. edge_free w h x y \<longrightarrow>
                texels (read_fbo (pressure_iteration ?ts ?dv p)) x y
                  = jacobi_formula (texels (read_fbo p)) (texels ?dv) x y)"
    by blast
  show ?thesis
    by (intro conjI loop fade all_iter pressure_iteration_write(2) pressure_fade_grid [OF pg])
qed

lemma ramp_sim_grid: "sim_grid ramp_sim 128 128"
  by (simp add: sim_grid_def pressure_grid_def ramp_sim_def ramp_pressure_def
      blank_double_def blank_fbo_def)

text \<open>
  C1, counterexample. A 128 x 128 grid, previous pressure \<open>p[x, y] = x\<close>, divergence 0,
  texel (1, 5): the four-neighbour formula gives (0 + 2 + 1 + 1 - 0) / 4 = 1, the
  shader replaces the left sample (coordinate 0.5/128 < 0.01) by the right one and
  writes (2 + 2 + 1 + 1) / 4 = 1.5.
\<close>

theorem step_pressure_pass_counterexample:
  "texels (read_fbo (pressure_iteration (1 / 128, 1 / 128) (blank_fbo 128 128 False 0)
                       ramp_pressure)) 1 5 = 3 / 2 \<and>
   jacobi_formula (texels (read_fbo ramp_pressure)) (texels (blank_fbo 128 128 False 0)) 1 5 = 1"
  by (simp add: pressure_iteration_def blit_swap_def swap_fbo_def read_fbo_def write_fbo_def
      blit_def pressureShader_def baseVertexShader_def fragment_uv_def texture2D_def texel_def
      clamp_to_edge_def ramp_pressure_def blank_double_def blank_fbo_def jacobi_formula_def
      add2_def sub2_def Let_def)

subsection \<open>A fluid in uniform motion\<close>

lemma mix_same: "mix c c a = c"
  by (simp add: mix_def algebra_simps)

lemma mix2_same: "mix2 c c a = c"
  by (simp add: mix2_def mix_same)

lemma mix4_same: "mix4 c c a = c"
  by (cases c) (simp add: mix_same)

lemma texture2D_uniform:
  assumes "\<And>i j. texels t i j = c" "\<And>a. mixf c c a = c"
  shows "texture2D mixf t uv = c"
  using assms by (simp add: texture2D_def texel_def Let_def)

lemma bilerp_uniform:
  assumes "\<And>uv. sam uv = c" "\<And>a. mixf c c a = c"
  shows "bilerp mixf sam uv ts = c"
  using assms by (simp add: bilerp_def Let_def)

lemma blit_texels:
  "texels (blit t ts frag) i j
     = frag (baseVertexShader ts (fragment_uv (fbo_width t) (fbo_height t) i j))"
  by (simp add: blit_def)

lemma blit_swap_read:
  "texels (fbo1 (blit_swap d ts frag)) i j
     = frag (baseVertexShader ts (fragment_uv (fbo_width (fbo2 d)) (fbo_height (fbo2 d)) i j))"
  by (simp add: blit_swap_def swap_fbo_def write_fbo_def blit_def)

lemma curl_pass_uniform:
  assumes "\<And>i j. texels (fbo1 (velocity s)) i j = c"
  shows "texels (curl (curl_pass ts s)) i j = 0"
    and "velocity (curl_pass ts s) = velocity s"
    and "pressure (curl_pass ts s) = pressure s"
    and "dye (curl_pass ts s) = dye s"
    and "divergence (curl_pass ts s) = divergence s"
  using texture2D_uniform [of "fbo1 (velocity s)" c mix2, OF assms mix2_same]
  by (simp_all add: curl_pass_def blit_texels read_fbo_def curlShader_def Let_def)

lemma vorticity_pass_uniform:
  assumes "\<And>i j. texels (fbo1 (velocity s)) i j = c" "\<And>i j. texels (curl s) i j = 0"
  shows "texels (fbo1 (velocity (vorticity_pass cfg ts dt s))) i j = c"
    and "pressure (vorticity_pass cfg ts dt s) = pressure s"
    and "dye (vorticity_pass cfg ts dt s) = dye s"
    and "divergence (vorticity_pass cfg ts dt s) = divergence s"
  using texture2D_uniform [of "fbo1 (velocity s)" c mix2, OF assms(1) mix2_same]
    texture2D_uniform [of "curl s" 0 mix, OF assms(2) mix_same]
  by (simp_all add: vorticity_pass_def blit_swap_read read_fbo_def vorticityShader_def Let_def
      scale2_def add2_def)

lemma divergence_pass_uniform:
  assumes "\<And>i j. texels (fbo1 (velocity s)) i j = c"
  shows "texels (divergence (divergence_pass ts s)) i j = 0"
    and "velocity (divergence_pass ts s) = velocity s"
    and "pressure (divergence_pass ts s) = pressure s"
    and "dye (divergence_pass ts s) = dye s"
  using texture2D_uniform [of "fbo1 (velocity s)" c mix2, OF assms mix2_same]
  by (simp_all add: divergence_pass_def blit_texels read_fbo_def divergenceShader_def Let_def)

lemma step_passes_divergence_uniform:
  assumes "\<And>i j. texels (fbo1 (velocity s)) i j = c"
  shows "texels (divergence (step_passes cfg lin dt s)) i j = 0"
proof -
  let ?ts = "(d_texelSizeX (velocity s), d_texelSizeY (velocity s))"
  let ?s1 = "curl_pass ?ts s"
  let ?s2 = "vorticity_pass cfg ?ts dt ?s1"
  let ?s3 = "divergence_pass ?ts ?s2"
  have v1: "\<And>i j. texels (fbo1 (velocity ?s1)) i j = c"
    using assms by (simp add: curl_pass_uniform(2) [OF assms])
  have c1: "\<And>i j. texels (curl ?s1) i j = 0"
    by (rule curl_pass_uniform(1) [OF assms])
  have v2: "\<And>i j. texels (fbo1 (velocity ?s2)) i j = c"
    by (rule vorticity_pass_uniform(1) [OF v1 c1])
  have d3: "texels (divergence ?s3) i j = 0"
    by (rule divergence_pass_uniform(1) [OF v2])
  have "divergence (step_passes cfg lin dt s) = divergence ?s3"
    by (simp add: step_passes_def Let_def pressure_pass_def gradient_subtract_pass_def
        advect_velocity_pass_def advect_dye_pass_def)
  with d3 show ?thesis by simp
qed

theorem step_pressure_pass_witness:
  "pressure (step_passes config True (1 / 60) ramp_sim) =
     ((pressure_iteration (1 / 128, 1 / 128)
         (divergence (step_passes config True (1 / 60) ramp_sim))) ^^ 20)
       (pressure_fade config ramp_pressure) \<and>
   texels (read_fbo (pressure_fade config ramp_pressure)) 3 5 = 3 * (8 / 10) \<and>
   texels (read_fbo (pressure_iteration (1 / 128, 1 / 128)
                       (divergence (step_passes config True (1 / 60) ramp_sim))
                       (pressure_fade config ramp_pressure))) 3 5
     = (2 * (8 / 10) + 4 * (8 / 10) + 3 * (8 / 10) + 3 * (8 / 10) - 0) / 4"
proof -
  note T = step_pressure_pass [OF ramp_sim_grid, of config True "1 / 60"]
  have p: "pressure ramp_sim = ramp_pressure" by (simp add: ramp_sim_def)
  have inside: "texel (read_fbo ramp_pressure) x y = real_of_int x"
    if "0 \<le> x" "x < 128" for x y
    using that
    by (simp add: texel_def clamp_to_edge_def read_fbo_def ramp_pressure_def blank_double_def
        blank_fbo_def)
  have ef: "edge_free 128 128 3 5" by (simp add: edge_free_def)
  have dv0: "texels (divergence (step_passes config True (1 / 60) ramp_sim)) 3 5 = 0"
    by (rule step_passes_divergence_uniform [of _ "(0, 0)"])
      (simp add: ramp_sim_def blank_double_def blank_fbo_def)
  from T have loop: "pressure (step_passes config True (1 / 60) ramp_sim) =
     ((pressure_iteration (1 / 128, 1 / 128)
         (divergence (step_passes config True (1 / 60) ramp_sim))) ^^ 20)
       (pressure_fade config ramp_pressure)"
    by (simp add: p config_def)
  from T have fade: "texels (read_fbo (pressure_fade config ramp_pressure)) x y
      = real_of_int x * (8 / 10)" if "0 \<le> x" "x < 128" for x y
    using that by (simp add: p inside config_def)
  note grid = T [THEN conjunct2, THEN conjunct2, THEN conjunct1]
  note iter = T [THEN conjunct2, THEN conjunct2, THEN conjunct2, THEN conjunct2, rule_format,
      OF grid, THEN conjunct2, THEN conjunct2, THEN conjunct2, rule_format, OF ef]
  from iter have "texels (read_fbo (pressure_iteration (1 / 128, 1 / 128)
                       (divergence (step_passes config True (1 / 60) ramp_sim))
                       (pressure_fade config ramp_pressure))) 3 5
     = jacobi_formula (texels (read_fbo (pressure_fade config ramp_pressure)))
         (texels (divergence (step_passes config True (1 / 60) ramp_sim))) 3 5"
    by (simp add: p)
  then show ?thesis using loop fade dv0 by (simp add: jacobi_formula_def)
qed

subsection \<open>Dye advection\<close>

lemma pressure_iteration_uniform:
  assumes "\<And>i j. texels (fbo1 p) i j = 0" "\<And>i j. texels dv i j = 0"
  shows "texels (fbo1 (pressure_iteration ts dv p)) i j = 0"
  using texture2D_uniform [of "fbo1 p" 0 mix, OF assms(1) mix_same]
    texture2D_uniform [of dv 0 mix, OF assms(2) mix_same]
  by (simp add: pressure_iteration_def blit_swap_read read_fbo_def pressureShader_def Let_def)

lemma pressure_fade_uniform:
  assumes "\<And>i j. texels (fbo1 p) i j = 0"
  shows "texels (fbo1 (pressure_fade cfg p)) i j = 0"
  using texture2D_uniform [of "fbo1 p" 0 mix, OF assms(1) mix_same]
  by (simp add: pressure_fade_def blit_swap_read read_fbo_def clearShader_def)

lemma pressure_funpow_uniform:
  assumes "\<And>i j. texels (fbo1 p) i j = 0" "\<And>i j. texels dv i j = 0"
  shows "texels (fbo1 (((pressure_iteration ts dv) ^^ n) p)) i j = 0"
  using assms(1)
proof (induction n arbitrary: i j)
  case 0
  then show ?case by simp
next
  case (Suc n)
  show ?case
    using pressure_iteration_uniform [of "((pressure_iteration ts dv) ^^ n) p" dv ts i j]
      Suc.IH [OF Suc.prems] assms(2)
    by simp
qed

lemma pressure_pass_uniform:
  assumes "\<And>i j. texels (fbo1 (pressure s)) i j = 0" "\<And>i j. texels (divergence s) i j = 0"
  shows "texels (fbo1 (pressure (pressure_pass cfg ts s))) i j = 0"
    and "velocity (pressure_pass cfg ts s) = velocity s"
    and "dye (pressure_pass cfg ts s) = dye s"
proof -
  have "pressure (pressure_pass cfg ts s) =
          ((pressure_iteration ts (divergence s)) ^^ nat (PRESSURE_ITERATIONS cfg))
            (pressure_fade cfg (pressure s))"
    by (simp add: pressure_pass_def Let_def pressure_solve_funpow)
  then show "texels (fbo1 (pressure (pressure_pass cfg ts s))) i j = 0"
    using pressure_funpow_uniform [of "pressure_fade cfg (pressure s)" "divergence s"]
      pressure_fade_uniform [of "pressure s", OF assms(1)] assms(2)
    by simp
qed (simp_all add: pressure_pass_def Let_def)

lemma gradient_subtract_pass_uniform:
  assumes "\<And>i j. texels (fbo1 (velocity s)) i j = c" "\<And>i j. texels (fbo1 (pressure s)) i j = 0"
  shows "texels (fbo1 (velocity (gradient_subtract_pass ts s))) i j = c"
    and "dye (gradient_subtract_pass ts s) = dye s"
  using texture2D_uniform [of "fbo1 (velocity s)" c mix2, OF assms(1) mix2_same]
    texture2D_uniform [of "fbo1 (pressure s)" 0 mix, OF assms(2) mix_same]
  by (simp_all add: gradient_subtract_pass_def blit_swap_read read_fbo_def
      gradientSubtractShader_def Let_def scale2_def sub2_def)

lemma advect_velocity_pass_uniform:
  assumes "\<And>i j. texels (fbo1 (velocity s)) i j = c"
  shows "texels (fbo1 (velocity (advect_velocity_pass cfg lin ts dt s))) i j
           = scale2 (1 / (1 + VELOCITY_DISSIPATION cfg * dt)) c"
    and "dye (advect_velocity_pass cfg lin ts dt s) = dye s"
proof -
  have u: "texture2D mix2 (fbo1 (velocity s)) uv = c" for uv
    by (rule texture2D_uniform [of "fbo1 (velocity s)" c mix2, OF assms mix2_same])
  have b: "bilerp mix2 (texture2D mix2 (fbo1 (velocity s))) uv tsz = c" for uv tsz
    by (rule bilerp_uniform [of "texture2D mix2 (fbo1 (velocity s))" c mix2, OF u mix2_same])
  show "texels (fbo1 (velocity (advect_velocity_pass cfg lin ts dt s))) i j
           = scale2 (1 / (1 + VELOCITY_DISSIPATION cfg * dt)) c"
    by (simp add: advect_velocity_pass_def blit_swap_read read_fbo_def advectionShader_def
        Let_def u b)
qed (simp add: advect_velocity_pass_def)

lemma step_passes_velocity_uniform:
  assumes "\<And>i j. texels (fbo1 (velocity s)) i j = c" "\<And>i j. texels (fbo1 (pressure s)) i j = 0"
  shows "texels (fbo1 (velocity (step_passes cfg lin dt s))) i j
           = scale2 (1 / (1 + VELOCITY_DISSIPATION cfg * dt)) c"
proof -
  let ?ts = "(d_texelSizeX (velocity s), d_texelSizeY (velocity s))"
  let ?s1 = "curl_pass ?ts s"
  let ?s2 = "vorticity_pass cfg ?ts dt ?s1"
  let ?s3 = "divergence_pass ?ts ?s2"
  let ?s5 = "pressure_pass cfg ?ts ?s3"
  let ?s6 = "gradient_subtract_pass ?ts ?s5"
  let ?s7 = "advect_velocity_pass cfg lin ?ts dt ?s6"
  have v1: "\<And>i j. texels (fbo1 (velocity ?s1)) i j = c"
    by (simp add: curl_pass_uniform(2) [OF assms(1)] assms(1))
  have c1: "\<And>i j. texels (curl ?s1) i j = 0"
    by (rule curl_pass_uniform(1) [OF assms(1)])
  have p1: "\<And>i j. texels (fbo1 (pressure ?s1)) i j = 0"
    by (simp add: curl_pass_uniform(3) [OF assms(1)] assms(2))
  have v2: "\<And>i j. texels (fbo1 (velocity ?s2)) i j = c"
    by (rule vorticity_pass_uniform(1) [OF v1 c1])
  have p2: "\<And>i j. texels (fbo1 (pressure ?s2)) i j = 0"
    by (simp add: vorticity_pass_uniform(2) [OF v1 c1] p1)
  have v3: "\<And>i j. texels (fbo1 (velocity ?s3)) i j = c"
    by (simp add: divergence_pass_uniform(2) [OF v2] v2)
  have d3: "\<And>i j. texels (divergence ?s3) i j = 0"
    by (rule divergence_pass_uniform(1) [OF v2])
  have p3: "\<And>i j. texels (fbo1 (pressure ?s3)) i j = 0"
    by (simp add: divergence_pass_uniform(3) [OF v2] p2)
  have p5: "\<And>i j. texels (fbo1 (pressure ?s5)) i j = 0"
    by (rule pressure_pass_uniform(1) [OF p3 d3])
  have v5: "\<And>i j. texels (fbo1 (velocity ?s5)) i j = c"
    by (simp add: pressure_pass_uniform(2) [OF p3 d3] v3)
  have v6: "\<And>i j. texels (fbo1 (velocity ?s6)) i j = c"
    by (rule gradient_subtract_pass_uniform(1) [OF v5 p5])
  have v7: "texels (fbo1 (velocity ?s7)) i j = scale2 (1 / (1 + VELOCITY_DISSIPATION cfg * dt)) c"
    by (rule advect_velocity_pass_uniform(1) [OF v6])
  have "velocity (step_passes cfg lin dt s) = velocity ?s7"
    by (simp add: step_passes_def Let_def advect_dye_pass_def)
  with v7 show ?thesis by simp
qed

lemma step_passes_dye:
  "dye (step_passes cfg lin dt s) =
     blit_swap (dye s) (d_texelSizeX (velocity s), d_texelSizeY (velocity s))
       (advectionShader (\<not> lin) mix4 scale4
          (texture2D mix2 (read_fbo (velocity (step_passes cfg lin dt s))))
          (texture2D mix4 (read_fbo (dye s)))
          (d_texelSizeX (dye s), d_texelSizeY (dye s)) dt (DENSITY_DISSIPATION cfg))"
  by (simp add: step_passes_def pass_defs Let_def)

lemma step_passes_dye_texel:
  "texels (read_fbo (dye (step_passes cfg lin dt s))) x y =
     scale4 (1 / (1 + DENSITY_DISSIPATION cfg * dt))
       (backtraced lin dt (read_fbo (velocity (step_passes cfg lin dt s))) (dye s) x y)"
  by (simp add: step_passes_dye read_fbo_def write_fbo_def blit_swap_read advectionShader_def
      backtraced_def baseVertexShader_def Let_def)

lemma mix_bound:
  assumes "\<bar>x\<bar> \<le> M" "\<bar>y\<bar> \<le> M" "0 \<le> a" "a \<le> 1"
  shows "\<bar>mix x y a\<bar> \<le> M"
proof -
  have "\<bar>x * (1 - a) + y * a\<bar> \<le> \<bar>x * (1 - a)\<bar> + \<bar>y * a\<bar>" by (rule abs_triangle_ineq)
  also have "\<dots> = \<bar>x\<bar> * (1 - a) + \<bar>y\<bar> * a" using assms(3,4) by (simp add: abs_mult)
  also have "\<dots> \<le> M * (1 - a) + M * a"
    using assms by (intro add_mono mult_right_mono) simp_all
  also have "\<dots> = M" by (simp add: algebra_simps)
  finally show ?thesis by (simp add: mix_def)
qed

lemma maxabs4_le_iff:
  "maxabs4 (r, g, b, w) \<le> M \<longleftrightarrow> \<bar>r\<bar> \<le> M \<and> \<bar>g\<bar> \<le> M \<and> \<bar>b\<bar> \<le> M \<and> \<bar>w\<bar> \<le> M"
  by auto

lemma maxabs4_nonneg: "0 \<le> maxabs4 a"
  by (cases a) auto

lemma mix4_bound:
  assumes "maxabs4 a \<le> M" "maxabs4 b \<le> M" "0 \<le> f" "f \<le> 1"
  shows "maxabs4 (mix4 a b f) \<le> M"
proof -
  obtain r g b' w where a: "a = (r, g, b', w)" by (cases a)
  obtain r2 g2 b2 w2 where b: "b = (r2, g2, b2, w2)" by (cases b)
  show ?thesis
    using assms unfolding a b mix4.simps maxabs4_le_iff
    by (simp add: mix_bound)
qed

lemma scale4_bound:
  assumes "maxabs4 a \<le> M" "0 \<le> k"
  shows "maxabs4 (scale4 k a) \<le> k * M"
proof -
  obtain r g b w where a: "a = (r, g, b, w)" by (cases a)
  have "\<bar>k * x\<bar> \<le> k * M" if "\<bar>x\<bar> \<le> M" for x
    using that assms(2) by (simp add: abs_mult mult_left_mono)
  then show ?thesis
    using assms(1) unfolding a scale4.simps maxabs4_le_iff by simp
qed

lemma fract_range: "0 \<le> fract x \<and> fract x \<le> 1"
  unfolding fract_def by linarith

lemma fold_max_ge_start: "a \<le> fold max xs (a :: real)"
  by (induction xs arbitrary: a) (auto intro: order_trans [OF max.cobounded2])

lemma fold_max_ge_elem: "x \<in> set xs \<Longrightarrow> x \<le> fold max xs (a :: real)"
proof (induction xs arbitrary: a)
  case Nil
  then show ?case by simp
next
  case (Cons y ys)
  show ?case
  proof (cases "x = y")
    case True
    have "y \<le> max y a" by simp
    also have "\<dots> \<le> fold max ys (max y a)" by (rule fold_max_ge_start)
    finally show ?thesis using True by simp
  next
    case False
    with Cons.prems have "x \<in> set ys" by simp
    from Cons.IH [OF this] show ?thesis by simp
  qed
qed

lemma fold_max_le: "a \<le> M \<Longrightarrow> (\<forall>x \<in> set xs. x \<le> M) \<Longrightarrow> fold max xs (a :: real) \<le> M"
  by (induction xs arbitrary: a) auto

lemma max_abs_nonneg: "0 \<le> max_abs t"
  unfolding max_abs_def by (rule fold_max_ge_start)

lemma texels_le_max_abs:
  assumes "0 \<le> i" "i < fbo_width t" "0 \<le> j" "j < fbo_height t"
  shows "maxabs4 (texels t i j) \<le> max_abs t"
  unfolding max_abs_def
proof (rule fold_max_ge_elem)
  have "(i, j) \<in> set (List.product [0..fbo_width t - 1] [0..fbo_height t - 1])"
    using assms by simp
  then show "maxabs4 (texels t i j)
      \<in> set (map (\<lambda>(i, j). maxabs4 (texels t i j))
               (List.product [0..fbo_width t - 1] [0..fbo_height t - 1]))"
    by force
qed

lemma texel_le_max_abs:
  assumes "0 < fbo_width t" "0 < fbo_height t"
  shows "maxabs4 (texel t i j) \<le> max_abs t"
  unfolding texel_def
  by (rule texels_le_max_abs) (use assms in \<open>simp_all add: clamp_to_edge_def\<close>)

lemma max_abs_le:
  assumes "0 \<le> M" "\<And>i j. maxabs4 (texels t i j) \<le> M"
  shows "max_abs t \<le> M"
  unfolding max_abs_def using assms by (intro fold_max_le) auto

lemma texture2D_bound:
  assumes "0 < fbo_width t" "0 < fbo_height t"
  shows "maxabs4 (texture2D mix4 t uv) \<le> max_abs t"
  using texel_le_max_abs [OF assms] fract_range
  by (simp add: texture2D_def Let_def mix4_bound)

lemma bilerp_bound:
  assumes "\<And>uv. maxabs4 (sam uv) \<le> M"
  shows "maxabs4 (bilerp mix4 sam uv ts) \<le> M"
  using assms fract_range by (simp add: bilerp_def Let_def mix4_bound)

lemma backtraced_bound:
  assumes "0 < fbo_width (fbo1 d)" "0 < fbo_height (fbo1 d)"
  shows "maxabs4 (backtraced lin dt vel d x y) \<le> max_abs (read_fbo d)"
  using texture2D_bound [OF assms] bilerp_bound [of "texture2D mix4 (fbo1 d)" "max_abs (fbo1 d)"]
  by (simp add: backtraced_def Let_def read_fbo_def)

lemma decay_range:
  assumes "0 \<le> D" "0 \<le> dt"
  shows "0 < 1 / (1 + D * dt) \<and> 1 / (1 + D * dt) \<le> (1 :: real)"
proof -
  have "0 \<le> D * dt" using assms by simp
  then show ?thesis by (simp add: field_simps)
qed

lemma step_passes_max_abs:
  assumes "0 \<le> DENSITY_DISSIPATION cfg" "0 \<le> dt" "dye_grid (dye s) w h"
  shows "max_abs (read_fbo (dye (step_passes cfg lin dt s)))
           \<le> 1 / (1 + DENSITY_DISSIPATION cfg * dt) * max_abs (read_fbo (dye s))"
proof (rule max_abs_le)
  let ?k = "1 / (1 + DENSITY_DISSIPATION cfg * dt)"
  have k: "0 \<le> ?k" using decay_range [OF assms(1,2)] by simp
  show "0 \<le> ?k * max_abs (read_fbo (dye s))"
    using k max_abs_nonneg by simp
  have dims: "0 < fbo_width (fbo1 (dye s))" "0 < fbo_height (fbo1 (dye s))"
    using assms(3) by (simp_all add: dye_grid_def)
  show "maxabs4 (texels (read_fbo (dye (step_passes cfg lin dt s))) i j)
          \<le> ?k * max_abs (read_fbo (dye s))" for i j
    unfolding step_passes_dye_texel
    by (rule scale4_bound [OF backtraced_bound [OF dims] k])
qed

lemma step_passes_dye_grid:
  "dye_grid (dye s) w h \<Longrightarrow> dye_grid (dye (step_passes cfg lin dt s)) w h"
  by (simp add: step_passes_dye dye_grid_def blit_swap_def swap_fbo_def write_fbo_def blit_def)

lemma frames_bound:
  assumes "0 \<le> DENSITY_DISSIPATION cfg" "0 \<le> dt"
  shows "dye_grid (dye s) w h \<Longrightarrow>
         \<exists>s'. frames cfg lin dt n (Some s) = Some s' \<and> dye_grid (dye s') w h \<and>
              max_abs (read_fbo (dye s'))
                \<le> (1 / (1 + DENSITY_DISSIPATION cfg * dt)) ^ n * max_abs (read_fbo (dye s))"
proof (induction n arbitrary: s)
  case 0
  then show ?case by simp
next
  case (Suc n)
  let ?k = "1 / (1 + DENSITY_DISSIPATION cfg * dt)"
  let ?s1 = "step_passes cfg lin dt s"
  have k: "0 \<le> ?k" using decay_range [OF assms] by simp
  from Suc.IH [OF step_passes_dye_grid [OF Suc.prems, of cfg lin dt]]
  obtain s' where s': "frames cfg lin dt n (Some ?s1) = Some s'" "dye_grid (dye s') w h"
    "max_abs (read_fbo (dye s')) \<le> ?k ^ n * max_abs (read_fbo (dye ?s1))"
    by blast
  have "?k ^ n * max_abs (read_fbo (dye ?s1)) \<le> ?k ^ n * (?k * max_abs (read_fbo (dye s)))"
    using step_passes_max_abs [OF assms Suc.prems, of lin] k
    by (intro mult_left_mono) simp_all
  with s'(3) have "max_abs (read_fbo (dye s')) \<le> ?k ^ Suc n * max_abs (read_fbo (dye s))"
    by (simp add: mult.assoc)
  with s'(1,2) show ?case by (simp add: step_def)
qed

lemma frames_step:
  "frames cfg lin dt (Suc n) sim = step cfg lin dt (frames cfg lin dt n sim)"
  by (induction n arbitrary: sim) simp_all

text \<open>
  C2 (as the code has it). In a step the dye pass writes, for every texel, the
  back-traced sample of the dye times \<open>1 / (1 + DENSITY_DISSIPATION * dt)\<close>. For
  \<open>DENSITY_DISSIPATION >= 0\<close> and \<open>dt >= 0\<close> this factor lies in (0, 1], the largest
  absolute value of the dye after the step is at most the factor times the largest
  absolute value before it, so it never grows from one frame to the next, and after
  \<open>N\<close> frames without splats it is at most the factor to the power \<open>N\<close> times the
  initial one.
\<close>

theorem step_dye_dissipation:
  assumes "0 \<le> DENSITY_DISSIPATION cfg" "0 \<le> dt" "dye_grid (dye s) w h"
  shows "(\<forall>x y. texels (read_fbo (dye (step_passes cfg lin dt s))) x y =
            scale4 (1 / (1 + DENSITY_DISSIPATION cfg * dt))
              (backtraced lin dt (read_fbo (velocity (step_passes cfg lin dt s))) (dye s) x y)) \<and>
         0 < 1 / (1 + DENSITY_DISSIPATION cfg * dt) \<and>
         1 / (1 + DENSITY_DISSIPATION cfg * dt) \<le> 1 \<and>
         max_abs (read_fbo (dye (step_passes cfg lin dt s)))
           \<le> 1 / (1 + DENSITY_DISSIPATION cfg * dt) * max_abs (read_fbo (dye s)) \<and>
         (\<forall>n. \<exists>s' s''. frames cfg lin dt n (Some s) = Some s' \<and>
                 frames cfg lin dt (Suc n) (Some s) = Some s'' \<and>
                 max_abs (read_fbo (dye s'')) \<le> max_abs (read_fbo (dye s')) \<and>
                 max_abs (read_fbo (dye s'))
                   \<le> (1 / (1 + DENSITY_DISSIPATION cfg * dt)) ^ n * max_abs (read_fbo (dye s)))"
proof -
  let ?k = "1 / (1 + DENSITY_DISSIPATION cfg * dt)"
  note k = decay_range [OF assms(1,2)]
  have texel_eq: "\<forall>x y. texels (read_fbo (dye (step_passes cfg lin dt s))) x y =
            scale4 ?k (backtraced lin dt (read_fbo (velocity (step_passes cfg lin dt s))) (dye s) x y)"
    by (simp add: step_passes_dye_texel)
  have one: "max_abs (read_fbo (dye (step_passes cfg lin dt s))) \<le> ?k * max_abs (read_fbo (dye s))"
    by (rule step_passes_max_abs [OF assms])
  have many: "\<exists>s' s''. frames cfg lin dt n (Some s) = Some s' \<and>
                 frames cfg lin dt (Suc n) (Some s) = Some s'' \<and>
                 max_abs (read_fbo (dye s'')) \<le> max_abs (read_fbo (dye s')) \<and>
                 max_abs (read_fbo (dye s')) \<le> ?k ^ n * max_abs (read_fbo (dye s))" for n
  proof -
    from frames_bound [OF assms, where lin = lin and n = n]
    obtain s' where s': "frames cfg lin dt n (Some s) = Some s'" "dye_grid (dye s') w h"
      "max_abs (read_fbo (dye s')) \<le> ?k ^ n * max_abs (read_fbo (dye s))"
      by blast
    let ?s2 = "step_passes cfg lin dt s'"
    have next_frame: "frames cfg lin dt (Suc n) (Some s) = Some ?s2"
      unfolding frames_step s'(1) by (simp add: step_def)
    have "max_abs (read_fbo (dye ?s2)) \<le> ?k * max_abs (read_fbo (dye s'))"
      by (rule step_passes_max_abs [OF assms(1,2) s'(2)])
    also have "\<dots> \<le> 1 * max_abs (read_fbo (dye s'))"
      using k max_abs_nonneg by (intro mult_right_mono) simp_all
    finally have "max_abs (read_fbo (dye ?s2)) \<le> max_abs (read_fbo (dye s'))" by simp
    with s' next_frame show ?thesis by blast
  qed
  then have all: "\<forall>n. \<exists>s' s''. frames cfg lin dt n (Some s) = Some s' \<and>
                 frames cfg lin dt (Suc n) (Some s) = Some s'' \<and>
                 max_abs (read_fbo (dye s'')) \<le> max_abs (read_fbo (dye s')) \<and>
                 max_abs (read_fbo (dye s')) \<le> ?k ^ n * max_abs (read_fbo (dye s))"
    by blast
  show ?thesis
    by (intro conjI texel_eq one all k [THEN conjunct1] k [THEN conjunct2])
qed

lemma drift_dye_grid: "dye_grid (dye drift_sim) 4 2"
  by (simp add: dye_grid_def drift_sim_def drift_dye_def blank_double_def blank_fbo_def)

lemma drift_max_abs: "max_abs (read_fbo (dye drift_sim)) = 2"
  by (simp add: max_abs_def read_fbo_def drift_sim_def drift_dye_def blank_double_def
      blank_fbo_def upto_rec1)

lemma drift_velocity_after:
  "texture2D mix2 (read_fbo (velocity (step_passes config True (1 / 20) drift_sim))) uv
     = (- 5 / 2, 0)"
proof -
  have "texels (fbo1 (velocity (step_passes config True (1 / 20) drift_sim))) i j
          = scale2 (1 / (1 + VELOCITY_DISSIPATION config * (1 / 20))) (- 101 / 40, 0)" for i j
    by (rule step_passes_velocity_uniform)
      (simp_all add: drift_sim_def blank_double_def blank_fbo_def)
  then have "texels (fbo1 (velocity (step_passes config True (1 / 20) drift_sim))) i j
          = (- 5 / 2, 0)" for i j
    by (simp add: config_def scale2_def)
  from texture2D_uniform [of "fbo1 (velocity (step_passes config True (1 / 20) drift_sim))"
      "(- 5 / 2, 0)" mix2, OF this mix2_same]
  show ?thesis by (simp add: read_fbo_def)
qed

lemma drift_dye_after:
  "texels (read_fbo (dye (step_passes config True (1 / 20) drift_sim))) x y =
     scale4 (20 / 21)
       (texture2D mix4 (fbo1 drift_dye) (sub2 (fragment_uv 4 2 x y) (- 1 / 8, 0)))"
  unfolding step_passes_dye_texel backtraced_def Let_def drift_velocity_after
  by (simp add: config_def drift_sim_def drift_dye_def blank_double_def blank_fbo_def
      read_fbo_def write_fbo_def scale2_def)

lemma drift_shape_after:
  "fbo_width (read_fbo (dye (step_passes config True (1 / 20) drift_sim))) = 4"
  "fbo_height (read_fbo (dye (step_passes config True (1 / 20) drift_sim))) = 2"
  using step_passes_dye_grid [OF drift_dye_grid, of config True "1 / 20"]
  by (simp_all add: dye_grid_def read_fbo_def)

text \<open>
  C2, counterexample. Default configuration, \<open>dt = 0.05\<close>, so the factor is 20/21. The
  fluid moves uniformly by half a dye texel per step; the back-traced sample of texel
  (0, 0) is the mean of (2, 0, 0, 1) and (0, 0, 0, 1). The largest absolute value goes
  from 2 to 20/21, not to 2 * 20/21 = 40/21: the bilinear blend halves the peak.
\<close>

theorem step_dye_dissipation_counterexample:
  "max_abs (read_fbo (dye drift_sim)) = 2 \<and>
   max_abs (read_fbo (dye (step_passes config True (1 / 20) drift_sim))) = 20 / 21 \<and>
   (1 / (1 + DENSITY_DISSIPATION config * (1 / 20))) ^ 1 * max_abs (read_fbo (dye drift_sim))
     = 40 / 21"
proof -
  have after: "max_abs (read_fbo (dye (step_passes config True (1 / 20) drift_sim))) = 20 / 21"
    unfolding max_abs_def drift_shape_after
    by (simp add: drift_dye_after texture2D_def texel_def clamp_to_edge_def fragment_uv_def
        sub2_def fract_def mix_def drift_dye_def blank_double_def blank_fbo_def Let_def
        upto_rec1)
  show ?thesis using after drift_max_abs by (simp add: config_def)
qed

theorem step_dye_dissipation_witness:
  "max_abs (read_fbo (dye (step_passes config True (1 / 20) drift_sim))) \<le> 40 / 21 \<and>
   (\<exists>s'. frames config True (1 / 20) 3 (Some drift_sim) = Some s' \<and>
         max_abs (read_fbo (dye s')) \<le> (20 / 21) ^ 3 * 2)"
proof -
  have D: "0 \<le> DENSITY_DISSIPATION config" by (simp add: config_def)
  have t: "(0 :: real) \<le> 1 / 20" by simp
  note T = step_dye_dissipation [OF D t drift_dye_grid, of True]
  have k: "1 / (1 + DENSITY_DISSIPATION config * (1 / 20)) = (20 / 21 :: real)"
    by (simp add: config_def)
  from T [THEN conjunct2, THEN conjunct2, THEN conjunct2, THEN conjunct1]
  have one: "max_abs (read_fbo (dye (step_passes config True (1 / 20) drift_sim))) \<le> 40 / 21"
    unfolding k drift_max_abs by simp
  from T [THEN conjunct2, THEN conjunct2, THEN conjunct2, THEN conjunct2, rule_format, of 3]
  have "\<exists>s'. frames config True (1 / 20) 3 (Some drift_sim) = Some s' \<and>
         max_abs (read_fbo (dye s')) \<le> (20 / 21) ^ 3 * 2"
    unfolding k drift_max_abs by blast
  with one show ?thesis by blast
qed

end
